theory Spec2Isabelle
  imports Complex_Main
begin

section \<open>Text\<close>

text \<open>
  Python strings are modelled as lists of 8-bit characters holding ASCII text (or the
  UTF-8 bytes of other text). Case mapping and white space are those of ASCII; a
  character outside ASCII is left as it is by \<open>lower\<close> and is never white space.
\<close>

definition is_upper :: "char \<Rightarrow> bool" where
  "is_upper c = (let n = (of_char c :: nat) in 65 \<le> n \<and> n \<le> 90)"

definition lower_char :: "char \<Rightarrow> char" where
  "lower_char c =
     (if is_upper c
      then (case c of Char b0 b1 b2 b3 b4 b5 b6 b7 \<Rightarrow> Char b0 b1 b2 b3 b4 True b6 b7)
      else c)"

text \<open>\<^verbatim>\<open>str.lower()\<close>\<close>

definition lower :: "string \<Rightarrow> string" where
  "lower s = map lower_char s"

fun starts_with :: "string \<Rightarrow> string \<Rightarrow> bool" where
  "starts_with s [] = True"
| "starts_with [] (p # ps) = False"
| "starts_with (c # cs) (p # ps) = (c = p \<and> starts_with cs ps)"

text \<open>\<^verbatim>\<open>p in s\<close> on strings: \<open>p\<close> occurs in \<open>s\<close> as a contiguous piece.\<close>

fun contains :: "string \<Rightarrow> string \<Rightarrow> bool" where
  "contains p [] = (p = [])"
| "contains p (c # cs) = (starts_with (c # cs) p \<or> contains p cs)"

text \<open>White space of \<^verbatim>\<open>str.strip()\<close> and of \<^verbatim>\<open>\s\<close>; the digits of \<^verbatim>\<open>\d\<close>.\<close>

definition is_space :: "char \<Rightarrow> bool" where
  "is_space c = (let n = (of_char c :: nat) in (9 \<le> n \<and> n \<le> 13) \<or> (28 \<le> n \<and> n \<le> 32))"

definition is_digit :: "char \<Rightarrow> bool" where
  "is_digit c = (let n = (of_char c :: nat) in 48 \<le> n \<and> n \<le> 57)"

definition strip :: "string \<Rightarrow> string" where
  "strip s = rev (dropWhile is_space (rev (dropWhile is_space s)))"

definition digit_val :: "char \<Rightarrow> nat" where
  "digit_val c = of_char c - 48"

text \<open>\<^verbatim>\<open>int(ds)\<close> on a string of digits.\<close>

definition nat_of_digits :: "string \<Rightarrow> nat" where
  "nat_of_digits ds = foldl (\<lambda>n c. 10 * n + digit_val c) 0 ds"

text \<open>\<^verbatim>\<open>s.split(d)\<close> for a separator of one character.\<close>

fun split_on :: "char \<Rightarrow> string \<Rightarrow> string list" where
  "split_on d [] = [[]]"
| "split_on d (c # cs) =
     (if c = d then [] # split_on d cs
      else (case split_on d cs of [] \<Rightarrow> [[c]] | l # ls \<Rightarrow> (c # l) # ls))"

definition digit_char :: "nat \<Rightarrow> char" where
  "digit_char n = (''0123456789'' ! n)"

text \<open>\<^verbatim>\<open>str(n)\<close> for a natural number.\<close>

fun show_nat :: "nat \<Rightarrow> string" where
  "show_nat n = (if n < 10 then [digit_char n] else show_nat (n div 10) @ [digit_char (n mod 10)])"

declare show_nat.simps [simp del]


section \<open>Floating-point values\<close>

text \<open>
  A Python \<^verbatim>\<open>float\<close> is a binary64 value: \<open>Finite x\<close> with \<open>x\<close> the rational number
  the value is, or one of the three special values. The sign of a zero is not modelled.
\<close>

datatype pyfloat = Finite rat | PosInf | NegInf | NaN

text \<open>The number of binary digits of a positive integer.\<close>

function bitlen :: "int \<Rightarrow> nat" where
  "bitlen n = (if n \<le> 0 then 0 else Suc (bitlen (n div 2)))"
  by pat_completeness auto
termination
  by (relation "measure nat") auto

declare bitlen.simps [simp del]

definition pow2 :: "int \<Rightarrow> rat" where
  "pow2 e = (if 0 \<le> e then of_int (2 ^ nat e) else 1 / of_int (2 ^ nat (- e)))"

text \<open>The exponent \<open>e\<close> of a positive rational \<open>a\<close>: \<open>2 ^ e \<le> a < 2 ^ (e + 1)\<close>.\<close>

definition float_exponent :: "rat \<Rightarrow> int" where
  "float_exponent a =
     (if 1 \<le> a then int (bitlen \<lfloor>a\<rfloor>) - 1
      else (let k = int (bitlen \<lfloor>1 / a\<rfloor>) - 1 in if a * pow2 k = 1 then - k else - k - 1))"

text \<open>The nearest integer, a tie going to the even one.\<close>

definition round_even :: "rat \<Rightarrow> int" where
  "round_even y =
     (let f = \<lfloor>y\<rfloor>; d = y - of_int f in
      if d < 1 / 2 then f else if 1 / 2 < d then f + 1 else if even f then f else f + 1)"

text \<open>
  The binary64 value nearest to a rational, a tie going to the even significand: 53
  binary digits from the exponent down, the exponent at least \<open>-1022\<close>, and an infinity
  when the rounded value reaches \<open>2 ^ 1024\<close>. Every operation on floats rounds its exact result so.
\<close>

definition binary64 :: "rat \<Rightarrow> pyfloat" where
  "binary64 x =
     (if x = 0 then Finite 0
      else
        (let a = \<bar>x\<bar>;
             e = max (float_exponent a) (- 1022);
             ulp = pow2 (e - 52);
             n = round_even (a / ulp)
         in if 1023 < e \<or> (e = 1023 \<and> 2 ^ 53 \<le> n) then (if x < 0 then NegInf else PosInf)
            else Finite (if x < 0 then - (of_int n * ulp) else of_int n * ulp)))"

text \<open>\<^verbatim>\<open>x + y\<close>\<close>

fun fadd :: "pyfloat \<Rightarrow> pyfloat \<Rightarrow> pyfloat" where
  "fadd (Finite a) (Finite b) = binary64 (a + b)"
| "fadd NaN y = NaN"
| "fadd x NaN = NaN"
| "fadd PosInf NegInf = NaN"
| "fadd NegInf PosInf = NaN"
| "fadd PosInf y = PosInf"
| "fadd NegInf y = NegInf"
| "fadd x PosInf = PosInf"
| "fadd x NegInf = NegInf"

text \<open>\<^verbatim>\<open>x / d\<close> and \<^verbatim>\<open>x * c\<close> for a finite positive \<open>d\<close> or \<open>c\<close>.\<close>

fun fdiv_pos :: "pyfloat \<Rightarrow> rat \<Rightarrow> pyfloat" where
  "fdiv_pos (Finite a) d = binary64 (a / d)"
| "fdiv_pos x d = x"

fun fmul_pos :: "pyfloat \<Rightarrow> rat \<Rightarrow> pyfloat" where
  "fmul_pos (Finite a) c = binary64 (a * c)"
| "fmul_pos x c = x"

text \<open>\<^verbatim>\<open>a < b\<close> on two floats: false when either is not a number.\<close>

fun float_less :: "pyfloat \<Rightarrow> pyfloat \<Rightarrow> bool" where
  "float_less NaN b = False"
| "float_less a NaN = False"
| "float_less (Finite x) (Finite y) = (x < y)"
| "float_less a PosInf = (a \<noteq> PosInf)"
| "float_less NegInf b = (b \<noteq> NegInf)"
| "float_less a b = False"

text \<open>
  \<^verbatim>\<open>float(s)\<close> on a string, after the grammar of the language reference:
  \<^verbatim>\<open>digitpart ::= digit (["_"] digit)*\<close>,
  \<^verbatim>\<open>number ::= [digitpart] "." digitpart | digitpart ["."]\<close>,
  \<^verbatim>\<open>floatnumber ::= number [("e" | "E") ["+" | "-"] digitpart]\<close>,
  \<^verbatim>\<open>floatvalue ::= ["+" | "-"] (floatnumber | "inf" | "infinity" | "nan")\<close>
  with the names in any case and white space around the value ignored; the value is the
  binary64 value nearest to the number written. \<open>None\<close> is \<^verbatim>\<open>ValueError\<close>.
\<close>

fun digits_tail :: "string \<Rightarrow> string option" where
  "digits_tail [] = Some []"
| "digits_tail (c # cs) =
     (if is_digit c then map_option ((#) c) (digits_tail cs)
      else if c = CHR ''_'' then
        (case cs of [] \<Rightarrow> None
         | d # ds \<Rightarrow> if is_digit d then map_option ((#) d) (digits_tail ds) else None)
      else None)"

definition digitpart :: "string \<Rightarrow> string option" where
  "digitpart s = (case s of [] \<Rightarrow> None
     | c # cs \<Rightarrow> if is_digit c then map_option ((#) c) (digits_tail cs) else None)"

definition opt_digitpart :: "string \<Rightarrow> string option" where
  "opt_digitpart s = (if s = [] then Some [] else digitpart s)"

definition split_sign :: "string \<Rightarrow> bool \<times> string" where
  "split_sign s = (case s of [] \<Rightarrow> (False, [])
     | c # cs \<Rightarrow> if c = CHR ''-'' then (True, cs) else if c = CHR ''+'' then (False, cs) else (False, s))"

definition pow10 :: "int \<Rightarrow> rat" where
  "pow10 e = (if 0 \<le> e then 10 ^ nat e else 1 / 10 ^ nat (- e))"

definition number_value :: "string \<Rightarrow> rat option" where
  "number_value s =
     (let ip = takeWhile (\<lambda>c. c \<noteq> CHR ''.'') s; rest = dropWhile (\<lambda>c. c \<noteq> CHR ''.'') s in
      case rest of
        [] \<Rightarrow> map_option (\<lambda>ds. of_nat (nat_of_digits ds)) (digitpart ip)
      | dot # fp \<Rightarrow>
          (if ip = [] \<and> fp = [] then None
           else case (opt_digitpart ip, opt_digitpart fp) of
                  (Some i, Some f) \<Rightarrow>
                    Some (of_nat (nat_of_digits i) + of_nat (nat_of_digits f) / 10 ^ length f)
                | _ \<Rightarrow> None))"

definition is_e :: "char \<Rightarrow> bool" where
  "is_e c = (c = CHR ''e'' \<or> c = CHR ''E'')"

definition floatnumber_value :: "string \<Rightarrow> rat option" where
  "floatnumber_value s =
     (let m = takeWhile (\<lambda>c. \<not> is_e c) s; rest = dropWhile (\<lambda>c. \<not> is_e c) s in
      case rest of
        [] \<Rightarrow> number_value m
      | e # ex \<Rightarrow>
          (let (neg, ds) = split_sign ex in
           case (number_value m, digitpart ds) of
             (Some v, Some d) \<Rightarrow>
               Some (v * pow10 (if neg then - int (nat_of_digits d) else int (nat_of_digits d)))
           | _ \<Rightarrow> None))"

text \<open>The white space \<^verbatim>\<open>float\<close> ignores around the value: not the separators 28 to 31.\<close>

definition is_float_space :: "char \<Rightarrow> bool" where
  "is_float_space c = (let n = (of_char c :: nat) in (9 \<le> n \<and> n \<le> 13) \<or> n = 32)"

definition float_of_str :: "string \<Rightarrow> pyfloat option" where
  "float_of_str s =
     (let (neg, body) =
            split_sign (rev (dropWhile is_float_space (rev (dropWhile is_float_space s))));
          name = lower body in
      if name = ''inf'' \<or> name = ''infinity'' then Some (if neg then NegInf else PosInf)
      else if name = ''nan'' then Some NaN
      else map_option (\<lambda>v. binary64 (if neg then - v else v)) (floatnumber_value body))"

text \<open>
  \<^verbatim>\<open>round(x, 1)\<close> and \<^verbatim>\<open>f"{x:.1f}"\<close>: the value of the float is rounded to the nearest
  multiple of one tenth, a tie going to the even one; \<^verbatim>\<open>round\<close> gives the float nearest
  to that decimal number.
\<close>

definition round_tenths :: "rat \<Rightarrow> int" where
  "round_tenths x = round_even (x * 10)"

fun round1 :: "pyfloat \<Rightarrow> pyfloat" where
  "round1 (Finite x) = binary64 (of_int (round_tenths x) / 10)"
| "round1 x = x"

fun format1 :: "pyfloat \<Rightarrow> string" where
  "format1 (Finite x) =
     (let m = nat \<bar>round_tenths x\<bar> in
      (if x < 0 then ''-'' else []) @ show_nat (m div 10) @ ''.'' @ show_nat (m mod 10))"
| "format1 PosInf = ''inf''"
| "format1 NegInf = ''-inf''"
| "format1 NaN = ''nan''"


section \<open>Exceptions\<close>

text \<open>
  The exceptions of the built-in operations the resolver and the validator use; their
  message texts are not modelled.
\<close>

datatype error = ValueError | TypeError | AttributeError | OverflowError

definition and_then :: "error + 'a \<Rightarrow> ('a \<Rightarrow> error + 'b) \<Rightarrow> error + 'b" where
  "and_then r f = (case r of Inl e \<Rightarrow> Inl e | Inr v \<Rightarrow> f v)"

text \<open>
  A call of an external collaborator (a tool, the GitHub client, the agent graph) either
  returns its value, \<open>Inr v\<close>, or raises an exception \<open>e\<close>, \<open>Inl m\<close> with \<open>m\<close> the
  text \<^verbatim>\<open>str(e)\<close>.
\<close>

type_synonym 'a call = "string + 'a"



section \<open>Dates and times\<close>

text \<open>
  A naive \<^verbatim>\<open>datetime\<close>: the day as its proleptic Gregorian ordinal
  (\<^verbatim>\<open>date.toordinal()\<close>, from 1 for 0001-01-01 to 3652059 for 9999-12-31) and the time of
  day. Two values compare as their fields do, the day first.
\<close>

record datetime =
  ordinal :: nat
  hour :: nat
  minute :: nat
  second :: nat
  microsecond :: nat

definition max_ordinal :: nat where
  "max_ordinal = 3652059"

definition valid_datetime :: "datetime \<Rightarrow> bool" where
  "valid_datetime d \<longleftrightarrow>
     1 \<le> ordinal d \<and> ordinal d \<le> max_ordinal \<and> hour d < 24 \<and> minute d < 60
     \<and> second d < 60 \<and> microsecond d < 1000000"

definition dt_key :: "datetime \<Rightarrow> nat list" where
  "dt_key d = [ordinal d, hour d, minute d, second d, microsecond d]"

fun key_less :: "nat list \<Rightarrow> nat list \<Rightarrow> bool" where
  "key_less (x # xs) (y # ys) = (x < y \<or> (x = y \<and> key_less xs ys))"
| "key_less xs ys = False"

text \<open>\<^verbatim>\<open>a < b\<close> on two datetimes.\<close>

definition dt_less :: "datetime \<Rightarrow> datetime \<Rightarrow> bool" where
  "dt_less a b = key_less (dt_key a) (dt_key b)"

text \<open>\<^verbatim>\<open>d.replace(hour=h, minute=m, second=0, microsecond=0)\<close>\<close>

definition replace_time :: "datetime \<Rightarrow> nat \<Rightarrow> nat \<Rightarrow> error + datetime" where
  "replace_time d h m =
     (if 23 < h then Inl ValueError
      else if 59 < m then Inl ValueError
      else Inr (d\<lparr>hour := h, minute := m, second := 0, microsecond := 0\<rparr>))"

definition us_per_day :: nat where
  "us_per_day = 86400000000"

text \<open>
  \<^verbatim>\<open>timedelta(days=d, hours=h, minutes=m)\<close> for arguments that are not negative, as its
  length in microseconds.
\<close>

definition timedelta :: "nat \<Rightarrow> nat \<Rightarrow> nat \<Rightarrow> error + nat" where
  "timedelta days hours minutes =
     (let us = ((days * 24 + hours) * 60 + minutes) * 60000000 in
      if 999999999 < us div us_per_day then Inl OverflowError else Inr us)"

definition to_us :: "datetime \<Rightarrow> nat" where
  "to_us d = (((ordinal d * 24 + hour d) * 60 + minute d) * 60 + second d) * 1000000 + microsecond d"

text \<open>The time of day, in microseconds.\<close>

definition tod :: "datetime \<Rightarrow> nat" where
  "tod d = ((hour d * 60 + minute d) * 60 + second d) * 1000000 + microsecond d"

text \<open>\<^verbatim>\<open>d + delta\<close>\<close>

definition add_delta :: "datetime \<Rightarrow> nat \<Rightarrow> error + datetime" where
  "add_delta d delta =
     (let t = to_us d + delta; day = t div us_per_day; r = t mod us_per_day in
      if day < 1 \<or> max_ordinal < day then Inl OverflowError
      else Inr \<lparr>ordinal = day, hour = r div 3600000000, minute = r div 60000000 mod 60,
                second = r div 1000000 mod 60, microsecond = r mod 1000000\<rparr>)"

definition dt_plus :: "datetime \<Rightarrow> nat \<Rightarrow> nat \<Rightarrow> nat \<Rightarrow> error + datetime" where
  "dt_plus d days hours minutes = and_then (timedelta days hours minutes) (add_delta d)"

text \<open>The year, month and day of an ordinal, as \<^verbatim>\<open>date.fromordinal\<close> finds them.\<close>

definition days_before_month :: "nat \<Rightarrow> nat" where
  "days_before_month m = [0, 0, 31, 59, 90, 120, 151, 181, 212, 243, 273, 304, 334] ! m"

definition days_in_month :: "nat \<Rightarrow> nat" where
  "days_in_month m = [0, 31, 28, 31, 30, 31, 30, 31, 31, 30, 31, 30, 31] ! m"

definition ord2ymd :: "nat \<Rightarrow> nat \<times> nat \<times> nat" where
  "ord2ymd n0 =
     (let n = n0 - 1;
          n400 = n div 146097; n = n mod 146097;
          n100 = n div 36524; n = n mod 36524;
          n4 = n div 1461; n = n mod 1461;
          n1 = n div 365; n = n mod 365;
          year = n400 * 400 + 1 + n100 * 100 + n4 * 4 + n1
      in if n1 = 4 \<or> n100 = 4 then (year - 1, 12, 31)
         else
           (let leapyear = (n1 = 3 \<and> (n4 \<noteq> 24 \<or> n100 = 3));
                month = (n + 50) div 32;
                preceding = days_before_month month + (if 2 < month \<and> leapyear then 1 else 0)
            in if n < preceding then
                 (let month = month - 1;
                      preceding = preceding
                        - (days_in_month month + (if month = 2 \<and> leapyear then 1 else 0))
                  in (year, month, n - preceding + 1))
               else (year, month, n - preceding + 1)))"

text \<open>\<^verbatim>\<open>"%0wd" % n\<close>\<close>

definition zero_pad :: "nat \<Rightarrow> nat \<Rightarrow> string" where
  "zero_pad w n = replicate (w - length (show_nat n)) (CHR ''0'') @ show_nat n"

text \<open>\<^verbatim>\<open>d.isoformat()\<close>\<close>

definition isoformat :: "datetime \<Rightarrow> string" where
  "isoformat d =
     (case ord2ymd (ordinal d) of (y, m, dd) \<Rightarrow>
        zero_pad 4 y @ ''-'' @ zero_pad 2 m @ ''-'' @ zero_pad 2 dd @ ''T''
        @ zero_pad 2 (hour d) @ '':'' @ zero_pad 2 (minute d) @ '':'' @ zero_pad 2 (second d)
        @ (if microsecond d = 0 then [] else ''.'' @ zero_pad 6 (microsecond d)))"


section \<open>Natural-time resolver\<close>

text \<open>
  \<^verbatim>\<open>re.search(p, s)\<close>: the match at the leftmost position where \<open>p\<close> matches. Each
  pattern of this program has one way to match at a given position, which the function
  for the pattern computes.
\<close>

fun re_search :: "(string \<Rightarrow> 'a option) \<Rightarrow> string \<Rightarrow> 'a option" where
  "re_search m [] = m []"
| "re_search m (c # cs) = (case m (c # cs) of Some g \<Rightarrow> Some g | None \<Rightarrow> re_search m cs)"

text \<open>
  Groups 1, 2 and 3 of the pattern \<^verbatim>\<open>at (\d{1,2})(?::(\d{2}))?\s*(am|pm)?\<close> at the start
  of \<open>s\<close>.
\<close>

definition at_match :: "string \<Rightarrow> (string \<times> string option \<times> string option) option" where
  "at_match s =
     (if starts_with s ''at '' then
        (let r = drop 3 s; g1 = take 2 (takeWhile is_digit r) in
         if g1 = [] then None
         else
           (let r1 = drop (length g1) r;
                mm = take 2 (drop 1 r1);
                g2 = (if starts_with r1 '':'' \<and> length mm = 2 \<and> list_all is_digit mm
                      then Some mm else None);
                r2 = (case g2 of None \<Rightarrow> r1 | Some _ \<Rightarrow> drop 3 r1);
                r3 = dropWhile is_space r2;
                g3 = (if starts_with r3 ''am'' then Some ''am''
                      else if starts_with r3 ''pm'' then Some ''pm'' else None)
            in Some (g1, g2, g3)))
      else None)"

text \<open>Groups 1 and 2 of the pattern \<^verbatim>\<open>in (\d+)\s*(hour|minute)s?\<close> at the start of \<open>s\<close>.\<close>

definition in_match :: "string \<Rightarrow> (string \<times> string) option" where
  "in_match s =
     (if starts_with s ''in '' then
        (let g1 = takeWhile is_digit (drop 3 s);
             r = dropWhile is_space (dropWhile is_digit (drop 3 s))
         in if g1 = [] then None
            else if starts_with r ''hour'' then Some (g1, ''hour'')
            else if starts_with r ''minute'' then Some (g1, ''minute'')
            else None)
      else None)"

text \<open>
  The dictionary \<^verbatim>\<open>time_mapping\<close>, built on every call before the phrase is looked at:
  an addition that leaves the range of dates raises there.
\<close>

definition time_mapping :: "datetime \<Rightarrow> error + (string \<times> datetime) list" where
  "time_mapping now =
     and_then (dt_plus now 0 1 0) (\<lambda>in_an_hour.
     and_then (dt_plus now 0 2 0) (\<lambda>in_2_hours.
     and_then (replace_time now 13 0) (\<lambda>after_lunch.
     and_then (replace_time now 12 0) (\<lambda>lunch.
     and_then (replace_time now 9 0) (\<lambda>morning.
     and_then (replace_time now 14 0) (\<lambda>afternoon.
     and_then (replace_time now 18 0) (\<lambda>evening.
     and_then (replace_time now 19 0) (\<lambda>tonight.
     and_then (and_then (dt_plus now 1 0 0) (\<lambda>d. replace_time d 9 0)) (\<lambda>tomorrow.
     and_then (and_then (dt_plus now 1 0 0) (\<lambda>d. replace_time d 9 0)) (\<lambda>tomorrow_morning.
     and_then (and_then (dt_plus now 1 0 0) (\<lambda>d. replace_time d 14 0)) (\<lambda>tomorrow_afternoon.
     and_then (and_then (dt_plus now 7 0 0) (\<lambda>d. replace_time d 9 0)) (\<lambda>next_week.
     Inr [(''now'', now),
          (''in an hour'', in_an_hour),
          (''in 2 hours'', in_2_hours),
          (''after lunch'', after_lunch),
          (''lunch'', lunch),
          (''morning'', morning),
          (''afternoon'', afternoon),
          (''evening'', evening),
          (''tonight'', tonight),
          (''tomorrow'', tomorrow),
          (''tomorrow morning'', tomorrow_morning),
          (''tomorrow afternoon'', tomorrow_afternoon),
          (''next week'', next_week)]))))))))))))"

text \<open>The keys of \<^verbatim>\<open>time_mapping\<close>.\<close>

definition time_keys :: "string list" where
  "time_keys = [''now'', ''in an hour'', ''in 2 hours'', ''after lunch'', ''lunch'', ''morning'',
     ''afternoon'', ''evening'', ''tonight'', ''tomorrow'', ''tomorrow morning'',
     ''tomorrow afternoon'', ''next week'']"

text \<open>The hour of the 24-hour clock, from the hour and the period as written.\<close>

definition convert_hour :: "nat \<Rightarrow> string option \<Rightarrow> nat" where
  "convert_hour h period =
     (if period = Some ''pm'' \<and> h < 12 then h + 12
      else if period = Some ''am'' \<and> h = 12 then 0
      else h)"

text \<open>
  \<^verbatim>\<open>parse_natural_time\<close>, with the value of \<^verbatim>\<open>datetime.now()\<close> as an argument. The limit
  of \<^verbatim>\<open>int\<close> on the number of digits it reads is not modelled: an amount that long
  leaves the range of \<^verbatim>\<open>timedelta\<close> and raises here as well.
\<close>

definition parse_natural_time :: "datetime \<Rightarrow> string \<Rightarrow> error + string" where
  "parse_natural_time now time_str0 =
     (let time_str = strip (lower time_str0) in
      and_then (time_mapping now) (\<lambda>mapping.
        case map_of mapping time_str of
          Some t \<Rightarrow> Inr (isoformat t)
        | None \<Rightarrow>
            (case re_search at_match time_str of
               Some (g1, g2, period) \<Rightarrow>
                 (let h = convert_hour (nat_of_digits g1) period;
                      m = (case g2 of None \<Rightarrow> 0 | Some mm \<Rightarrow> nat_of_digits mm)
                  in and_then (replace_time now h m) (\<lambda>target_time.
                     and_then (if dt_less target_time now then dt_plus target_time 1 0 0
                               else Inr target_time) (\<lambda>target_time.
                     Inr (isoformat target_time))))
             | None \<Rightarrow>
                 (case re_search in_match time_str of
                    Some (g1, unit) \<Rightarrow>
                      (let amount = nat_of_digits g1 in
                       and_then (if unit = ''hour'' then dt_plus now 0 amount 0
                                 else dt_plus now 0 0 amount) (\<lambda>target_time.
                       Inr (isoformat target_time)))
                  | None \<Rightarrow> Inr time_str))))"


text \<open>
  When the resolver returns: the phrase, lower-cased and stripped, is a key of the table, or
  its time of day is in range, or its amount keeps the sum within the range of dates, or
  no pattern applies.
\<close>

definition resolves :: "datetime \<Rightarrow> string \<Rightarrow> bool" where
  "resolves now t \<longleftrightarrow>
     t \<in> set time_keys \<or>
     (case re_search at_match t of
        Some (g1, g2, period) \<Rightarrow>
          convert_hour (nat_of_digits g1) period \<le> 23 \<and>
          (case g2 of None \<Rightarrow> True | Some mm \<Rightarrow> nat_of_digits mm \<le> 59)
      | None \<Rightarrow>
          (case re_search in_match t of
             Some (g1, unit) \<Rightarrow>
               to_us now + nat_of_digits g1 * (if unit = ''hour'' then 3600000000 else 60000000)
                 < (max_ordinal + 1) * us_per_day
           | None \<Rightarrow> True))"

text \<open>The time of day today, or tomorrow when it is before \<open>now\<close>.\<close>

definition at_target :: "datetime \<Rightarrow> nat \<Rightarrow> nat \<Rightarrow> datetime" where
  "at_target now h m =
     (let target = now\<lparr>hour := h, minute := m, second := 0, microsecond := 0\<rparr> in
      if dt_less target now then target\<lparr>ordinal := ordinal now + 1\<rparr> else target)"



section \<open>Values of tool arguments\<close>

datatype pyval =
    PNone
  | PBool bool
  | PInt int
  | PFloat pyfloat
  | PStr string
  | PList "pyval list"
  | PDict "(string \<times> pyval) list"

text \<open>A \<^verbatim>\<open>dict\<close> with string keys, as an association list read with \<open>map_of\<close>.\<close>

type_synonym pydict = "(string \<times> pyval) list"



section \<open>Action records\<close>

text \<open>
  The reason given by the validator. \<open>Msg m\<close> is the fixed text \<open>m\<close>;
  \<open>Could_not_parse_time v e\<close> is the text
  \<^verbatim>\<open>f"Could not parse time '{v}': {str(e)}"\<close>.
\<close>

datatype reason = Msg string | Could_not_parse_time pyval error

text \<open>
  An entry of \<^verbatim>\<open>state["tool_calls"]\<close>: the keys \<^verbatim>\<open>tool\<close>, \<^verbatim>\<open>args\<close>, \<^verbatim>\<open>status\<close>
  and, on an invalid call only, \<^verbatim>\<open>error\<close>.
\<close>

record tool_record =
  tool :: string
  tool_args :: pydict
  status :: string
  error :: "reason option"


section \<open>Tool validator\<close>

text \<open>\<^verbatim>\<open>d.get(k, default)\<close> and \<^verbatim>\<open>d[k] = v\<close> on a dictionary.\<close>

definition dict_get :: "pydict \<Rightarrow> string \<Rightarrow> pyval \<Rightarrow> pyval" where
  "dict_get d k dflt = (case map_of d k of None \<Rightarrow> dflt | Some v \<Rightarrow> v)"

fun dict_set :: "pydict \<Rightarrow> string \<Rightarrow> pyval \<Rightarrow> pydict" where
  "dict_set [] k v = [(k, v)]"
| "dict_set ((k', v') # d) k v = (if k' = k then (k, v) # d else (k', v') # dict_set d k v)"

text \<open>\<^verbatim>\<open>bool(v)\<close>, the test of \<^verbatim>\<open>not v\<close>.\<close>

fun truthy :: "pyval \<Rightarrow> bool" where
  "truthy PNone = False"
| "truthy (PBool b) = b"
| "truthy (PInt n) = (n \<noteq> 0)"
| "truthy (PFloat f) = (f \<noteq> Finite 0)"
| "truthy (PStr s) = (s \<noteq> [])"
| "truthy (PList l) = (l \<noteq> [])"
| "truthy (PDict d) = (d \<noteq> [])"

text \<open>
  \<^verbatim>\<open>float(v)\<close>. An integer of magnitude \<open>2 ^ 1024 - 2 ^ 970\<close> or more has no
  \<^verbatim>\<open>float\<close> and raises \<^verbatim>\<open>OverflowError\<close>; a value that holds a float is taken to be a
  binary64 value.
\<close>

fun py_float :: "pyval \<Rightarrow> error + pyfloat" where
  "py_float PNone = Inl TypeError"
| "py_float (PBool b) = Inr (Finite (if b then 1 else 0))"
| "py_float (PInt n) =
     (if 2 ^ 1024 - 2 ^ 970 \<le> \<bar>n\<bar> then Inl OverflowError else Inr (binary64 (of_int n)))"
| "py_float (PFloat f) = Inr f"
| "py_float (PStr s) = (case float_of_str s of None \<Rightarrow> Inl ValueError | Some f \<Rightarrow> Inr f)"
| "py_float (PList l) = Inl TypeError"
| "py_float (PDict d) = Inl TypeError"

text \<open>
  \<^verbatim>\<open>parse_natural_time(v)\<close> on an argument value: a value that is not a string has no
  \<^verbatim>\<open>lower\<close> and raises \<^verbatim>\<open>AttributeError\<close>.
\<close>

definition resolve_value :: "datetime \<Rightarrow> pyval \<Rightarrow> error + string" where
  "resolve_value now v = (case v of PStr s \<Rightarrow> parse_natural_time now s | _ \<Rightarrow> Inl AttributeError)"

text \<open>The text of the \<^verbatim>\<open>OverflowError\<close> of \<^verbatim>\<open>float\<close>, which no handler of the validator catches.\<close>

definition overflow_text :: string where
  "overflow_text = ''int too large to convert to float''"

text \<open>
  The block of \<^verbatim>\<open>validate_tool_call\<close> for \<^verbatim>\<open>create_calendar_event\<close>: \<open>Some r\<close> is
  \<^verbatim>\<open>return False, r\<close>, \<open>None\<close> leaves the block; the dictionary is \<^verbatim>\<open>args\<close> as the
  block leaves it.
\<close>

definition validate_event :: "datetime \<Rightarrow> pydict \<Rightarrow> (reason option \<times> pydict) call" where
  "validate_event now args =
     (if \<not> truthy (dict_get args ''summary'' PNone) then
        Inr (Some (Msg ''Event title is required''), args)
      else
        (let start_time = dict_get args ''start_time'' (PStr []) in
         case resolve_value now start_time of
           Inl e \<Rightarrow> Inr (Some (Could_not_parse_time start_time e), args)
         | Inr parsed_time \<Rightarrow>
             (let args = dict_set args ''start_time'' (PStr parsed_time);
                  duration = dict_get args ''duration_hours'' (PInt 1)
              in case py_float duration of
                   Inl e \<Rightarrow>
                     if e = ValueError \<or> e = TypeError
                     then Inr (Some (Msg ''Duration must be a valid number''), args)
                     else Inl overflow_text
                 | Inr duration \<Rightarrow>
                     (let args = dict_set args ''duration_hours'' (PFloat duration) in
                      if float_less duration (Finite (1 / 4)) \<or> float_less (Finite 12) duration
                      then Inr (Some (Msg ''Duration must be between 15 minutes and 12 hours''), args)
                      else Inr (None, args)))))"

definition validate_task :: "pydict \<Rightarrow> (reason option \<times> pydict) call" where
  "validate_task args =
     (if \<not> truthy (dict_get args ''title'' PNone) then
        Inr (Some (Msg ''Task title is required''), args)
      else
        (let priority = dict_get args ''priority'' (PStr ''medium'') in
         if priority \<notin> set [PStr ''low'', PStr ''medium'', PStr ''high'', PStr ''critical'']
         then Inr (Some (Msg ''Priority must be low, medium, high, or critical''), args)
         else
           (case map_of args ''estimated_hours'' of
              None \<Rightarrow> Inr (None, args)
            | Some v \<Rightarrow>
                (case py_float v of
                   Inl e \<Rightarrow>
                     if e = ValueError \<or> e = TypeError
                     then Inr (Some (Msg ''Estimated hours must be a valid number''), args)
                     else Inl overflow_text
                 | Inr hours \<Rightarrow> Inr (None, dict_set args ''estimated_hours'' (PFloat hours))))))"

text \<open>
  \<^verbatim>\<open>validate_tool_call\<close>, with the value of \<^verbatim>\<open>datetime.now()\<close> as an argument: the
  pair it returns and \<^verbatim>\<open>args\<close> as it leaves them.
\<close>

definition validate_tool_call ::
    "datetime \<Rightarrow> string \<Rightarrow> pydict \<Rightarrow> (bool \<times> reason \<times> pydict) call" where
  "validate_tool_call now tool_name args =
     (case (if tool_name = ''create_calendar_event'' then validate_event now args
            else Inr (None, args)) of
        Inl e \<Rightarrow> Inl e
      | Inr (Some r, args) \<Rightarrow> Inr (False, r, args)
      | Inr (None, args) \<Rightarrow>
          (case (if tool_name = ''create_task'' then validate_task args else Inr (None, args)) of
             Inl e \<Rightarrow> Inl e
           | Inr (Some r, args) \<Rightarrow> Inr (False, r, args)
           | Inr (None, args) \<Rightarrow> Inr (True, Msg [], args)))"


section \<open>Response classifier\<close>

definition error_patterns :: "string list" where
  "error_patterns =
     [''error'', ''failed'', ''could not'', ''couldn't'', ''unable to'',
      ''not found'', ''invalid'', ''incorrect'', [CHR 0xE2, CHR 0x9D, CHR 0x8C], ''cannot'',
      ''exception'', ''crashed'', ''broken'']"

definition warning_patterns :: "string list" where
  "warning_patterns =
     [''blocked'', ''overdue'', ''high priority'', ''urgent'', ''pending'',
      ''attention'', [CHR 0xE2, CHR 0x9A, CHR 0xA0, CHR 0xEF, CHR 0xB8, CHR 0x8F],
      ''limited'', ''quota'', ''exceeded'',
      ''missing'', ''incomplete'']"

definition success_patterns :: "string list" where
  "success_patterns =
     [''created'', ''scheduled'', ''completed'', ''updated'', ''deleted'',
      [CHR 0xE2, CHR 0x9C, CHR 0x85], ''successfully'', ''done'', ''finished'', ''saved'',
      ''confirmed'', ''added'']"

definition classify_output :: "string \<Rightarrow> tool_record list \<Rightarrow> string" where
  "classify_output response tool_calls =
     (let response_lower = lower response in
      if list_ex (\<lambda>pattern. contains pattern response_lower) error_patterns then ''error''
      else if tool_calls \<noteq> [] \<and> filter (\<lambda>tc. status tc = ''invalid'') tool_calls \<noteq> []
        then ''error''
      else if list_ex (\<lambda>pattern. contains pattern response_lower) warning_patterns \<and>
              2 \<le> length (filter (\<lambda>pattern. contains pattern response_lower) warning_patterns)
        then ''warning''
      else if list_ex (\<lambda>pattern. contains pattern response_lower) success_patterns
        then ''success''
      else if tool_calls \<noteq> [] \<and> filter (\<lambda>tc. status tc = ''valid'') tool_calls \<noteq> []
        then ''success''
      else ''info'')"


section \<open>Effort aggregator\<close>

text \<open>Group 1 of the pattern \<^verbatim>\<open>Est:\s*([\d.]+)h\<close> at the start of \<open>s\<close>.\<close>

definition est_match :: "string \<Rightarrow> string option" where
  "est_match s =
     (if starts_with s ''Est:'' then
        (let r = dropWhile is_space (drop 4 s);
             g = takeWhile (\<lambda>c. is_digit c \<or> c = CHR ''.'') r;
             t = dropWhile (\<lambda>c. is_digit c \<or> c = CHR ''.'') r
         in if g \<noteq> [] \<and> starts_with t ''h'' then Some g else None)
      else None)"

text \<open>Group 1 of the pattern \<^verbatim>\<open>\((\d+\.?\d*)h\<close> at the start of \<open>s\<close>.\<close>

definition duration_match :: "string \<Rightarrow> string option" where
  "duration_match s =
     (if starts_with s ''('' then
        (let a = takeWhile is_digit (drop 1 s); t = dropWhile is_digit (drop 1 s) in
         if a = [] then None
         else if starts_with t ''h'' then Some a
         else if starts_with t ''.'' then
           (let b = takeWhile is_digit (drop 1 t); u = dropWhile is_digit (drop 1 t) in
            if starts_with u ''h'' then Some (a @ ''.'' @ b) else None)
         else None)
      else None)"

text \<open>
  The body of the loop over the lines of the task list. A \<^verbatim>\<open>ValueError\<close> of
  \<^verbatim>\<open>float\<close> is caught by the \<^verbatim>\<open>except: pass\<close> around the body and leaves both
  counters as they were.
\<close>

definition pending_step :: "pyfloat \<times> nat \<Rightarrow> string \<Rightarrow> pyfloat \<times> nat" where
  "pending_step acc line =
     (case acc of (pending_hours, task_count) \<Rightarrow>
        if contains ''Est:'' line then
          (case re_search est_match line of
             None \<Rightarrow> acc
           | Some g \<Rightarrow>
               (case float_of_str g of
                  None \<Rightarrow> acc
                | Some h \<Rightarrow> (fadd pending_hours h, task_count + 1)))
        else acc)"

definition pending_contribution :: "string \<Rightarrow> pyfloat \<times> nat" where
  "pending_contribution tasks_result =
     foldl pending_step (Finite 0, 0) (split_on (CHR 0x0A) tasks_result)"

definition scheduled_step :: "pyfloat \<times> nat \<Rightarrow> string \<Rightarrow> pyfloat \<times> nat" where
  "scheduled_step acc line =
     (case acc of (scheduled_hours, event_count) \<Rightarrow>
        if contains ''('' line \<and> contains ''h)'' line then
          (case re_search duration_match line of
             None \<Rightarrow> acc
           | Some g \<Rightarrow>
               (case float_of_str g of
                  None \<Rightarrow> acc
                | Some h \<Rightarrow> (fadd scheduled_hours h, event_count + 1)))
        else acc)"

definition scheduled_contribution :: "string \<Rightarrow> pyfloat \<times> nat" where
  "scheduled_contribution calendar_result =
     foldl scheduled_step (Finite 0, 0) (split_on (CHR 0x0A) calendar_result)"

text \<open>
  What the GitHub client gives \<^verbatim>\<open>get_github_workload\<close>: no token in the environment,
  an exception somewhere in its \<^verbatim>\<open>try\<close> block, or the open issues assigned to the user
  and the open pull requests of the user.
\<close>

record gh_item =
  number :: nat
  title :: string
  labels :: "string list"

datatype github_source =
    No_token
  | Github_raises string
  | Github_results "gh_item list" "gh_item list"

record github_data =
  total_issues :: nat
  total_prs :: nat
  assigned_issues :: "(gh_item \<times> string) list"
  my_prs :: "gh_item list"
  estimated_hours :: pyfloat
  gh_error :: "string option"

definition issue_priority :: "gh_item \<Rightarrow> string" where
  "issue_priority issue =
     (let names = map lower (labels issue) in
      if list_ex (\<lambda>l. l \<in> set [''critical'', ''urgent'', ''p0'']) names then ''critical''
      else if list_ex (\<lambda>l. l \<in> set [''high'', ''important'', ''p1'']) names then ''high''
      else if list_ex (\<lambda>l. l \<in> set [''low'', ''p3'']) names then ''low''
      else ''medium'')"

definition issue_hours :: "string \<Rightarrow> nat" where
  "issue_hours priority =
     (if priority = ''critical'' then 4
      else if priority = ''high'' then 3
      else if priority = ''medium'' then 2
      else 1)"

definition get_github_workload :: "github_source \<Rightarrow> github_data" where
  "get_github_workload src =
     (case src of
        No_token \<Rightarrow>
          \<lparr>total_issues = 0, total_prs = 0, assigned_issues = [], my_prs = [],
           estimated_hours = Finite 0, gh_error = Some ''GitHub token not configured''\<rparr>
      | Github_raises e \<Rightarrow>
          \<lparr>total_issues = 0, total_prs = 0, assigned_issues = [], my_prs = [],
           estimated_hours = Finite 0, gh_error = Some e\<rparr>
      | Github_results issues_search prs_search \<Rightarrow>
          (let assigned = map (\<lambda>issue. (issue, issue_priority issue)) (take 50 issues_search);
               prs = take 50 prs_search;
               issue_sum = foldl (\<lambda>h entry. h + issue_hours (snd entry)) 0 assigned;
               hours = fadd (binary64 (of_nat issue_sum))
                         (fmul_pos (binary64 (of_nat (length prs))) (1 / 2))
           in \<lparr>total_issues = length assigned, total_prs = length prs,
               assigned_issues = assigned, my_prs = prs,
               estimated_hours = round1 hours, gh_error = None\<rparr>))"

text \<open>The tier and its description, from the unrounded total.\<close>

definition effort_tier :: "pyfloat \<Rightarrow> string \<times> string" where
  "effort_tier total_hours =
     (if float_less total_hours (Finite 4) then
        (''low'', ''Light workload - good opportunity for deep work or learning'')
      else if float_less total_hours (Finite 8) then
        (''medium'', ''Balanced workload - maintain steady pace'')
      else if float_less total_hours (Finite 12) then
        (''high'', ''Heavy workload - prioritize and take breaks'')
      else
        (''overloaded'', ''Overloaded schedule - consider rescheduling or delegating''))"

definition standard_day :: rat where
  "standard_day = 8"

definition utilization_of :: "pyfloat \<Rightarrow> pyfloat" where
  "utilization_of total_hours = fmul_pos (fdiv_pos total_hours standard_day) 100"

record analysis =
  summary :: string
  utilization :: string
  breakdown :: "(string \<times> string) list"
  recommendations :: "string list"

record effort =
  effort_level :: string
  total_hours :: pyfloat
  scheduled_hours :: pyfloat
  pending_hours :: pyfloat
  github_hours :: pyfloat
  utilization_percent :: pyfloat
  analysis :: analysis
  github_data :: "github_data option"

definition warning_sign :: string where
  "warning_sign = [CHR 0xE2, CHR 0x9A, CHR 0xA0, CHR 0xEF, CHR 0xB8, CHR 0x8F]"

definition recommendations_for :: "string \<Rightarrow> string list" where
  "recommendations_for level =
     (if level = ''low'' then
        [''Good time to tackle complex tasks'',
         ''Consider scheduling focus time'',
         ''Review backlog for new tasks'']
      else if level = ''medium'' then
        [''Maintain current pace'',
         ''Schedule regular breaks'',
         ''Monitor task completion'']
      else if level = ''high'' then
        [''Prioritize high-impact tasks'',
         ''Defer low-priority items'',
         ''Block focus time, minimize meetings'',
         ''Take breaks every 90 minutes'']
      else
        [warning_sign @ '' Reschedule non-urgent tasks'',
         warning_sign @ '' Consider delegating work'',
         warning_sign @ '' Communicate workload to team'',
         warning_sign @ '' Focus only on critical items''])"

text \<open>The result of the \<^verbatim>\<open>except Exception as e\<close> branch.\<close>

definition effort_unknown :: "string \<Rightarrow> effort" where
  "effort_unknown e =
     \<lparr>effort_level = ''unknown'', total_hours = Finite 0, scheduled_hours = Finite 0,
      pending_hours = Finite 0, github_hours = Finite 0, utilization_percent = Finite 0,
      analysis = \<lparr>summary = ''Could not calculate effort: '' @ e, utilization = ''N/A'',
                  breakdown = [], recommendations = []\<rparr>,
      github_data = None\<rparr>"

text \<open>
  \<^verbatim>\<open>calculate_schedule_effort\<close>, given what \<^verbatim>\<open>list_tasks.invoke\<close> and
  \<^verbatim>\<open>get_calendar_events.invoke\<close> do when called and what the GitHub client gives. The
  whole body is one \<^verbatim>\<open>try\<close> block: the first call that raises ends it.
\<close>

definition calculate_schedule_effort ::
    "string call \<Rightarrow> string call \<Rightarrow> github_source \<Rightarrow> bool \<Rightarrow> effort" where
  "calculate_schedule_effort tasks calendar gh include_github =
     (case tasks of
        Inl e \<Rightarrow> effort_unknown e
      | Inr tasks_result \<Rightarrow>
          (let (pending_hours, task_count) = pending_contribution tasks_result in
           case calendar of
             Inl e \<Rightarrow> effort_unknown e
           | Inr calendar_result \<Rightarrow>
               (let (scheduled_hours, event_count) = scheduled_contribution calendar_result;
                    github_data = (if include_github then Some (get_github_workload gh) else None);
                    github_hours =
                      (case github_data of None \<Rightarrow> Finite 0 | Some d \<Rightarrow> estimated_hours d);
                    github_issues = (case github_data of None \<Rightarrow> 0 | Some d \<Rightarrow> total_issues d);
                    github_prs = (case github_data of None \<Rightarrow> 0 | Some d \<Rightarrow> total_prs d);
                    total_hours = fadd (fadd pending_hours scheduled_hours) github_hours;
                    (effort_level, effort_description) = effort_tier total_hours;
                    utilization = utilization_of total_hours
                in \<lparr>effort_level = effort_level,
                    total_hours = round1 total_hours,
                    scheduled_hours = round1 scheduled_hours,
                    pending_hours = round1 pending_hours,
                    github_hours = round1 github_hours,
                    utilization_percent = round1 utilization,
                    analysis =
                      \<lparr>summary = effort_description,
                       utilization = format1 utilization @ ''%'',
                       breakdown =
                         [(''scheduled_events'',
                           show_nat event_count @ '' events ('' @ format1 scheduled_hours @ ''h)''),
                          (''pending_tasks'',
                           show_nat task_count @ '' tasks ('' @ format1 pending_hours @ ''h)''),
                          (''github_work'',
                           show_nat github_issues @ '' issues + '' @ show_nat github_prs
                             @ '' PRs ('' @ format1 github_hours @ ''h)''),
                          (''total_workload'', format1 total_hours @ ''h'')],
                       recommendations = recommendations_for effort_level\<rparr>,
                    github_data = github_data\<rparr>)))"

text \<open>
  The total of the three contributions as the aggregation adds them up, before the
  snapshot rounds its fields: the value of \<^verbatim>\<open>total_hours\<close> where the tier is decided.
\<close>

definition unrounded_total :: "string \<Rightarrow> string \<Rightarrow> github_source \<Rightarrow> bool \<Rightarrow> pyfloat" where
  "unrounded_total tasks_result calendar_result gh include_github =
     fadd (fadd (fst (pending_contribution tasks_result))
                (fst (scheduled_contribution calendar_result)))
          (if include_github then estimated_hours (get_github_workload gh) else Finite 0)"


section \<open>Orchestration loop\<close>

text \<open>A tool call proposed by the model: the keys \<^verbatim>\<open>name\<close>, \<^verbatim>\<open>args\<close> and \<^verbatim>\<open>id\<close>.\<close>

record tool_call =
  tc_name :: string
  tc_args :: pydict
  tc_id :: string

text \<open>The reply of the model, an \<^verbatim>\<open>AIMessage\<close>.\<close>

record ai_message =
  content :: string
  tool_calls :: "tool_call list"

text \<open>A \<^verbatim>\<open>ToolMessage\<close> holds its content and the id of the call it answers.\<close>

datatype message =
    HumanMessage string
  | SystemMessage string
  | AIMessage ai_message
  | ToolMessage string string

fun content_of :: "message \<Rightarrow> string" where
  "content_of (HumanMessage c) = c"
| "content_of (SystemMessage c) = c"
| "content_of (AIMessage m) = content m"
| "content_of (ToolMessage c i) = c"

fun set_content :: "message \<Rightarrow> string \<Rightarrow> message" where
  "set_content (HumanMessage c) c' = HumanMessage c'"
| "set_content (SystemMessage c) c' = SystemMessage c'"
| "set_content (AIMessage m) c' = AIMessage (m\<lparr>content := c'\<rparr>)"
| "set_content (ToolMessage c i) c' = ToolMessage c' i"

text \<open>
  The result of \<^verbatim>\<open>get_daily_work_summary\<close>. \<open>tasks_data\<close> and \<open>events_data\<close> are
  \<open>None\<close> while they hold the empty list they start with.
\<close>

record daily_summary =
  events_today :: nat
  tasks_pending :: nat
  github_issues :: nat
  github_prs :: nat
  summary_github_data :: github_data
  tasks_data :: "string option"
  events_data :: "string option"
  summary_text :: string

text \<open>
  \<^verbatim>\<open>AgentState\<close>, with the keys \<^verbatim>\<open>run_agent\<close> adds to the result: \<open>None\<close> is a key
  that is not there. \<open>state_tool_calls\<close> is the key \<^verbatim>\<open>tool_calls\<close> and
  \<open>state_github_data\<close> the key \<^verbatim>\<open>github_data\<close>.
\<close>

record agent_state =
  messages :: "message list"
  current_task :: "string option"
  tasks :: "pydict list"
  sessions :: "pydict list"
  reflection :: "string option"
  state_tool_calls :: "tool_record list"
  user_context :: pydict
  state_github_data :: "github_data option"
  daily_summary :: "daily_summary option"
  classification :: "string option"
  effort_analysis :: "effort option"

text \<open>The text of the \<^verbatim>\<open>IndexError\<close> of \<^verbatim>\<open>messages[-1]\<close> on an empty list.\<close>

definition index_error_text :: string where
  "index_error_text = ''list index out of range''"

definition should_continue :: "agent_state \<Rightarrow> string call" where
  "should_continue state =
     (case rev (messages state) of
        [] \<Rightarrow> Inl index_error_text
      | last_message # _ \<Rightarrow>
          (case last_message of
             AIMessage m \<Rightarrow> if tool_calls m \<noteq> [] then Inr ''tools'' else Inr ''end''
           | _ \<Rightarrow> Inr ''end''))"

text \<open>
  The loop of \<^verbatim>\<open>call_model\<close> over the tool calls of the reply: the records for
  \<^verbatim>\<open>tool_calls\<close> and the list \<^verbatim>\<open>validated_tool_calls\<close>. \<open>clock i\<close> is the value of
  \<^verbatim>\<open>datetime.now()\<close> while call \<open>i\<close> is validated. The validator works on a copy of the
  arguments: the call that is kept holds the arguments as the model gave them.
\<close>

fun validate_batch ::
    "(nat \<Rightarrow> datetime) \<Rightarrow> nat \<Rightarrow> tool_call list \<Rightarrow> (tool_record list \<times> tool_call list) call" where
  "validate_batch clock i [] = Inr ([], [])"
| "validate_batch clock i (tc # tcs) =
     (case validate_tool_call (clock i) (tc_name tc) (tc_args tc) of
        Inl e \<Rightarrow> Inl e
      | Inr (is_valid, error_msg, args_copy) \<Rightarrow>
          (case validate_batch clock (i + 1) tcs of
             Inl e \<Rightarrow> Inl e
           | Inr (records, validated_tool_calls) \<Rightarrow>
               if is_valid then
                 Inr (\<lparr>tool = tc_name tc, tool_args = args_copy, status = ''valid'',
                       error = None\<rparr> # records,
                      tc # validated_tool_calls)
               else
                 Inr (\<lparr>tool = tc_name tc, tool_args = args_copy, status = ''invalid'',
                       error = Some error_msg\<rparr> # records,
                      validated_tool_calls)))"

text \<open>What a node of the graph returns: the keys \<^verbatim>\<open>messages\<close> and \<^verbatim>\<open>tool_calls\<close>.\<close>

record state_update =
  upd_messages :: "message list"
  upd_tool_calls :: "tool_record list"

text \<open>
  \<^verbatim>\<open>call_model\<close>, given the system prompt it builds, what \<^verbatim>\<open>llm.invoke\<close> does on a list
  of messages and the clock.
\<close>

definition call_model ::
    "string \<Rightarrow> (message list \<Rightarrow> ai_message call) \<Rightarrow> (nat \<Rightarrow> datetime) \<Rightarrow> agent_state
      \<Rightarrow> state_update call" where
  "call_model system_prompt llm clock state =
     (case llm (SystemMessage system_prompt # messages state) of
        Inl e \<Rightarrow> Inl e
      | Inr response \<Rightarrow>
          (case validate_batch clock 0 (tool_calls response) of
             Inl e \<Rightarrow> Inl e
           | Inr (records, validated_tool_calls) \<Rightarrow>
               (let response =
                      (if validated_tool_calls \<noteq> []
                       then response\<lparr>tool_calls := validated_tool_calls\<rparr> else response)
                in Inr \<lparr>upd_messages = [AIMessage response],
                        upd_tool_calls = state_tool_calls state @ records\<rparr>)))"

text \<open>
  The state after a node, as the graph merges the update: the messages are appended
  (\<^verbatim>\<open>add_messages\<close>), the tool-call history is replaced.
\<close>

definition apply_update :: "agent_state \<Rightarrow> state_update \<Rightarrow> agent_state" where
  "apply_update state u =
     state\<lparr>messages := messages state @ upd_messages u, state_tool_calls := upd_tool_calls u\<rparr>"

text \<open>\<^verbatim>\<open>s.count(p)\<close> for a pattern that is not empty: the occurrences that do not overlap.\<close>

fun count_from :: "string \<Rightarrow> nat \<Rightarrow> string \<Rightarrow> nat" where
  "count_from p skip [] = 0"
| "count_from p skip (c # cs) =
     (if 0 < skip then count_from p (skip - 1) cs
      else if starts_with (c # cs) p then 1 + count_from p (length p - 1) cs
      else count_from p 0 cs)"

definition count_sub :: "string \<Rightarrow> string \<Rightarrow> nat" where
  "count_sub p s = count_from p 0 s"

definition clock_sign :: string where
  "clock_sign = [CHR 0xF0, CHR 0x9F, CHR 0x95, CHR 0x90]"

definition get_daily_work_summary ::
    "string call \<Rightarrow> string call \<Rightarrow> github_source \<Rightarrow> daily_summary" where
  "get_daily_work_summary tasks_call events_call gh =
     (let (tasks_pending, tasks_data) =
            (case tasks_call of
               Inl e \<Rightarrow> (0, None)
             | Inr task_data \<Rightarrow> (count_sub ''**'' task_data div 2, Some task_data));
          (events_today, events_data) =
            (case events_call of
               Inl e \<Rightarrow> (0, None)
             | Inr events \<Rightarrow> (count_sub clock_sign events, Some events));
          github_data = get_github_workload gh
      in \<lparr>events_today = events_today, tasks_pending = tasks_pending,
          github_issues = total_issues github_data, github_prs = total_prs github_data,
          summary_github_data = github_data, tasks_data = tasks_data, events_data = events_data,
          summary_text =
            ''Today you have '' @ show_nat events_today @ '' calendar events, ''
            @ show_nat tasks_pending @ '' pending tasks, ''
            @ show_nat (total_issues github_data) @ '' assigned GitHub issues, and ''
            @ show_nat (total_prs github_data) @ '' open pull requests.''\<rparr>)"

definition explicit_keywords :: "string list" where
  "explicit_keywords =
     [''how am i doing'', ''how busy am i'', ''workload'', ''effort level'',
      ''analyze my schedule'', ''am i overloaded'', ''show my workload'', ''check my effort'',
      ''how loaded am i'', ''schedule analysis'']"

definition should_include_effort_analysis :: "string \<Rightarrow> bool" where
  "should_include_effort_analysis user_input =
     list_ex (\<lambda>keyword. contains keyword (lower user_input)) explicit_keywords"

definition planning_keywords :: "string list" where
  "planning_keywords =
     [''plan my day'', ''what do i have today'', ''daily summary'', ''today's work'',
      ''show my schedule'']"

definition is_lower :: "char \<Rightarrow> bool" where
  "is_lower c = (let n = (of_char c :: nat) in 97 \<le> n \<and> n \<le> 122)"

definition upper_char :: "char \<Rightarrow> char" where
  "upper_char c =
     (if is_lower c
      then (case c of Char b0 b1 b2 b3 b4 b5 b6 b7 \<Rightarrow> Char b0 b1 b2 b3 b4 False b6 b7)
      else c)"

text \<open>\<^verbatim>\<open>str.upper()\<close>\<close>

definition upper :: "string \<Rightarrow> string" where
  "upper s = map upper_char s"

text \<open>
  \<^verbatim>\<open>str.title()\<close>: a letter after a letter in lower case, any other letter in upper
  case.
\<close>

fun title_from :: "bool \<Rightarrow> string \<Rightarrow> string" where
  "title_from prev [] = []"
| "title_from prev (c # cs) =
     (if is_upper c \<or> is_lower c
      then (if prev then lower_char c else upper_char c) # title_from True cs
      else c # title_from False cs)"

definition title_case :: "string \<Rightarrow> string" where
  "title_case s = title_from False s"

definition newline :: string where
  "newline = [CHR 0x0A]"

definition effort_emoji :: "(string \<times> string) list" where
  "effort_emoji =
     [(''low'', [CHR 0xF0, CHR 0x9F, CHR 0x9F, CHR 0xA2]),
      (''medium'', [CHR 0xF0, CHR 0x9F, CHR 0x9F, CHR 0xA1]),
      (''high'', [CHR 0xF0, CHR 0x9F, CHR 0x9F, CHR 0xA0]),
      (''overloaded'', [CHR 0xF0, CHR 0x9F, CHR 0x94, CHR 0xB4]),
      (''unknown'', [CHR 0xE2, CHR 0x9A, CHR 0xAA])]"

definition chart_sign :: string where
  "chart_sign = [CHR 0xF0, CHR 0x9F, CHR 0x93, CHR 0x8A]"

definition format_effort_report :: "effort \<Rightarrow> string" where
  "format_effort_report effort_data =
     (let level = effort_level effort_data;
          emoji = (case map_of effort_emoji level of
                     None \<Rightarrow> [CHR 0xE2, CHR 0x9A, CHR 0xAA] | Some e \<Rightarrow> e);
          report = newline @ ''## '' @ chart_sign @ '' Workload Analysis'' @ newline @ newline;
          report = report @ emoji @ '' **Effort Level**: '' @ upper level @ newline @ newline;
          a = analysis effort_data;
          report = report @ ''**Summary**: '' @ summary a @ newline @ newline;
          report = report @ ''**Utilization**: '' @ utilization a @ newline @ newline;
          report =
            (if breakdown a \<noteq> [] then
               report @ ''### Breakdown'' @ newline @ newline
               @ concat (map (\<lambda>(key, val).
                   ''- **'' @ title_case (map (\<lambda>c. if c = CHR ''_'' then CHR '' '' else c) key)
                   @ ''**: '' @ val @ newline) (breakdown a))
             else report);
          report =
            (if recommendations a \<noteq> [] then
               report @ newline @ ''### Recommendations'' @ newline @ newline
               @ concat (map (\<lambda>r. ''- '' @ r @ newline) (recommendations a))
             else report)
      in report)"

text \<open>
  What the collaborators do during one call of \<^verbatim>\<open>run_agent\<close>: the compiled graph on
  the state it is invoked with, and the task, calendar and GitHub sources, first for the
  daily summary, then for the effort analysis. The graph does not change the state it is
  given.
\<close>

record world =
  graph_invoke :: "agent_state \<Rightarrow> agent_state call"
  summary_tasks :: "string call"
  summary_events :: "string call"
  summary_github :: github_source
  effort_tasks :: "string call"
  effort_events :: "string call"
  effort_github :: github_source

definition fresh_state :: agent_state where
  "fresh_state =
     \<lparr>messages = [], current_task = None, tasks = [], sessions = [], reflection = None,
      state_tool_calls = [], user_context = [], state_github_data = None,
      daily_summary = None, classification = None, effort_analysis = None\<rparr>"

text \<open>The body of the \<^verbatim>\<open>try\<close> block of \<^verbatim>\<open>run_agent\<close>.\<close>

definition run_agent_try :: "world \<Rightarrow> string \<Rightarrow> agent_state \<Rightarrow> bool \<Rightarrow> agent_state call" where
  "run_agent_try w user_input state include_analysis =
     (case graph_invoke w state of
        Inl e \<Rightarrow> Inl e
      | Inr result \<Rightarrow>
          (let is_planning_request =
                 list_ex (\<lambda>keyword. contains keyword (lower user_input)) planning_keywords
           in if include_analysis \<or> is_planning_request then
                (let summary = get_daily_work_summary (summary_tasks w) (summary_events w)
                                 (summary_github w);
                     result = result\<lparr>state_github_data := Some (summary_github_data summary),
                                     daily_summary := Some summary\<rparr>
                 in case rev (messages result) of
                      [] \<Rightarrow> Inl index_error_text
                    | last_message # earlier \<Rightarrow>
                        (let response_content = content_of last_message;
                             result = result\<lparr>classification :=
                               Some (classify_output response_content (state_tool_calls result))\<rparr>
                         in if should_include_effort_analysis user_input \<or> is_planning_request then
                              (let effort_data = calculate_schedule_effort (effort_tasks w)
                                     (effort_events w) (effort_github w) True;
                                   result = result\<lparr>effort_analysis := Some effort_data\<rparr>;
                                   effort_report = format_effort_report effort_data
                               in Inr (result\<lparr>messages := rev earlier @
                                    [set_content last_message
                                       (response_content @ newline @ effort_report)]\<rparr>))
                            else Inr result))
              else Inr result))"

definition error_marker :: string where
  "error_marker = [CHR 0xE2, CHR 0x9D, CHR 0x8C] @ '' **Error**: ''"

text \<open>
  \<^verbatim>\<open>run_agent\<close>: \<open>None\<close> for the state is the argument left out. Every exception of
  the \<^verbatim>\<open>try\<close> block is caught, so the function always returns a state.
\<close>

definition run_agent :: "world \<Rightarrow> string \<Rightarrow> agent_state option \<Rightarrow> bool \<Rightarrow> agent_state" where
  "run_agent w user_input state0 include_analysis =
     (let state = (case state0 of None \<Rightarrow> fresh_state | Some s \<Rightarrow> s);
          state = state\<lparr>messages := messages state @ [HumanMessage user_input]\<rparr>
      in case run_agent_try w user_input state include_analysis of
           Inr result \<Rightarrow> result
         | Inl e \<Rightarrow>
             (let state = state\<lparr>messages := messages state @ [SystemMessage (error_marker @ e)]\<rparr>
              in if include_analysis then state\<lparr>classification := Some ''error''\<rparr> else state))"


section \<open>Properties of the text functions\<close>

lemma starts_with_iff: "starts_with s p \<longleftrightarrow> (\<exists>r. s = p @ r)"
  by (induction s p rule: starts_with.induct) auto

lemma contains_iff: "contains p s \<longleftrightarrow> (\<exists>a b. s = a @ p @ b)"
proof (induction s)
  case Nil
  then show ?case by auto
next
  case (Cons c cs)
  show ?case
  proof
    assume "contains p (c # cs)"
    then consider "starts_with (c # cs) p" | "contains p cs" by auto
    then show "\<exists>a b. c # cs = a @ p @ b"
    proof cases
      case 1
      then obtain r where "c # cs = p @ r" by (auto simp: starts_with_iff)
      then have "c # cs = [] @ p @ r" by simp
      then show ?thesis by blast
    next
      case 2
      then obtain a b where "cs = a @ p @ b" using Cons.IH by auto
      then have "c # cs = (c # a) @ p @ b" by simp
      then show ?thesis by blast
    qed
  next
    assume "\<exists>a b. c # cs = a @ p @ b"
    then obtain a b where ab: "c # cs = a @ p @ b" by auto
    show "contains p (c # cs)"
    proof (cases a)
      case Nil
      with ab have "starts_with (c # cs) p" by (auto simp: starts_with_iff)
      then show ?thesis by simp
    next
      case (Cons a0 as)
      with ab have "cs = as @ p @ b" by simp
      then have "contains p cs" using Cons.IH by auto
      then show ?thesis by simp
    qed
  qed
qed


section \<open>Properties of floats\<close>

lemma binary64_ints:
  "binary64 0 = Finite 0" "binary64 1 = Finite 1" "binary64 2 = Finite 2"
  "binary64 3 = Finite 3" "binary64 4 = Finite 4" "binary64 5 = Finite 5"
  "binary64 6 = Finite 6" "binary64 7 = Finite 7" "binary64 8 = Finite 8"
  "binary64 9 = Finite 9" "binary64 10 = Finite 10" "binary64 11 = Finite 11"
  "binary64 12 = Finite 12" "binary64 20 = Finite 20"
  by code_simp+

lemma small_ints_exact:
  "list_all (\<lambda>k. binary64 (of_int k) = Finite (of_int k)) [1..12]"
  by code_simp

lemma binary64_small_int:
  assumes "1 \<le> n" "n \<le> 12"
  shows "binary64 (of_int n) = Finite (of_int n)"
proof -
  from assms have "n \<in> set [1..12]" by simp
  with small_ints_exact show ?thesis by (simp only: list_all_iff)
qed


section \<open>Properties of dates and times\<close>

lemma to_us_split: "to_us d = ordinal d * us_per_day + tod d"
  by (simp add: to_us_def tod_def us_per_day_def algebra_simps)

lemma tod_bound: "valid_datetime d \<Longrightarrow> tod d < us_per_day"
  by (simp add: valid_datetime_def tod_def us_per_day_def)

lemma plus_Inr_iff:
  assumes "1 \<le> ordinal d"
  shows "(\<exists>r. dt_plus d days hours minutes = Inr r) \<longleftrightarrow>
     to_us d + ((days * 24 + hours) * 60 + minutes) * 60000000 < (max_ordinal + 1) * us_per_day"
proof -
  let ?us = "((days * 24 + hours) * 60 + minutes) * 60000000"
  let ?t = "to_us d + ?us"
  have pos: "0 < us_per_day" by (simp add: us_per_day_def)
  have "us_per_day * 1 \<le> us_per_day * ordinal d"
    using assms by (intro mult_le_mono2)
  then have ge: "us_per_day \<le> ?t"
    by (simp add: to_us_split mult.commute trans_le_add1)
  then have day1: "1 \<le> ?t div us_per_day"
    using pos by (simp add: Suc_le_eq div_greater_zero_iff)
  have lt_iff: "?t div us_per_day \<le> max_ordinal \<longleftrightarrow> ?t < (max_ordinal + 1) * us_per_day"
    using pos by (simp add: less_mult_imp_div_less div_less_iff_less_mult flip: less_Suc_eq_le)
  show ?thesis
  proof (cases "999999999 < ?us div us_per_day")
    case True
    then have "dt_plus d days hours minutes = Inl OverflowError"
      by (simp add: dt_plus_def timedelta_def and_then_def Let_def)
    moreover have "\<not> ?t < (max_ordinal + 1) * us_per_day"
    proof -
      from True have "1000000000 \<le> ?us div us_per_day" by simp
      then have "1000000000 * us_per_day \<le> ?us"
        using pos by (simp add: less_eq_div_iff_mult_less_eq)
      then show ?thesis by (simp add: max_ordinal_def us_per_day_def)
    qed
    ultimately show ?thesis by simp
  next
    case False
    then have "dt_plus d days hours minutes = add_delta d ?us"
      by (simp add: dt_plus_def timedelta_def and_then_def Let_def)
    then show ?thesis
      using day1 lt_iff by (auto simp: add_delta_def Let_def)
  qed
qed


lemma div_mod_decomp:
  fixes a b n :: nat
  assumes "b < n"
  shows "(a * n + b) div n = a" "(a * n + b) mod n = b"
  using assms by simp_all

lemma tod_decode:
  assumes "valid_datetime d"
  shows "tod d div 3600000000 = hour d" "tod d div 60000000 mod 60 = minute d"
    "tod d div 1000000 mod 60 = second d" "tod d mod 1000000 = microsecond d"
proof -
  from assms have b: "hour d < 24" "minute d < 60" "second d < 60" "microsecond d < 1000000"
    by (simp_all add: valid_datetime_def)
  have e1: "tod d = hour d * 3600000000 + (minute d * 60000000 + second d * 1000000 + microsecond d)"
    by (simp add: tod_def algebra_simps)
  have e2: "tod d = (hour d * 60 + minute d) * 60000000 + (second d * 1000000 + microsecond d)"
    by (simp add: tod_def algebra_simps)
  have e3: "tod d = ((hour d * 60 + minute d) * 60 + second d) * 1000000 + microsecond d"
    by (simp add: tod_def)
  have r1: "minute d * 60000000 + second d * 1000000 + microsecond d < 3600000000"
    using b by linarith
  have r2: "second d * 1000000 + microsecond d < 60000000"
    using b by linarith
  show "tod d div 3600000000 = hour d"
    unfolding e1 using r1 by (rule div_mod_decomp)
  have "tod d div 60000000 = hour d * 60 + minute d"
    unfolding e2 using r2 by (rule div_mod_decomp)
  moreover have "(hour d * 60 + minute d) mod 60 = minute d"
    using b(2) by (rule div_mod_decomp)
  ultimately show "tod d div 60000000 mod 60 = minute d"
    by (simp only:)
  have "tod d div 1000000 = (hour d * 60 + minute d) * 60 + second d"
    unfolding e3 using b(4) by (rule div_mod_decomp)
  moreover have "((hour d * 60 + minute d) * 60 + second d) mod 60 = second d"
    using b(3) by (rule div_mod_decomp)
  ultimately show "tod d div 1000000 mod 60 = second d"
    by (simp only:)
  show "tod d mod 1000000 = microsecond d"
    unfolding e3 using b(4) by (rule div_mod_decomp)
qed

lemma plus_days:
  assumes "valid_datetime d" "ordinal d + k \<le> max_ordinal"
  shows "dt_plus d k 0 0 = Inr (d\<lparr>ordinal := ordinal d + k\<rparr>)"
proof -
  have us: "((k * 24 + 0) * 60 + 0) * 60000000 = k * us_per_day"
    by (simp add: us_per_day_def)
  have t: "to_us d + k * us_per_day = (ordinal d + k) * us_per_day + tod d"
    by (simp add: to_us_split algebra_simps)
  have day: "(to_us d + k * us_per_day) div us_per_day = ordinal d + k"
    and r: "(to_us d + k * us_per_day) mod us_per_day = tod d"
    unfolding t using tod_bound [OF assms(1)] by (rule div_mod_decomp)+
  have "k * us_per_day div us_per_day = k"
    by (simp add: us_per_day_def)
  then have small: "\<not> 999999999 < k * us_per_day div us_per_day"
    using assms(2) by (simp add: max_ordinal_def)
  have delta: "timedelta k 0 0 = Inr (k * us_per_day)"
    unfolding timedelta_def us Let_def using small by (simp only: if_False)
  have one: "1 \<le> ordinal d + k"
    using assms(1) by (simp add: valid_datetime_def)
  have "dt_plus d k 0 0 = add_delta d (k * us_per_day)"
    by (simp add: dt_plus_def delta and_then_def)
  also have "\<dots> = Inr \<lparr>ordinal = ordinal d + k, hour = hour d, minute = minute d,
      second = second d, microsecond = microsecond d\<rparr>"
    unfolding add_delta_def Let_def day r tod_decode [OF assms(1)]
    using one assms(2) by auto
  finally show ?thesis by simp
qed


lemma time_mapping_keys: "time_mapping now = Inr m \<Longrightarrow> map fst m = time_keys"
  by (auto simp: time_mapping_def and_then_def time_keys_def split: sum.splits)

lemma plus_hours_ok:
  assumes "valid_datetime now" "ordinal now + 7 \<le> max_ordinal" "h \<le> 2"
  shows "\<exists>r. dt_plus now 0 h 0 = Inr r"
proof -
  have "tod now < us_per_day" using assms(1) by (rule tod_bound)
  then have "to_us now + ((0 * 24 + h) * 60 + 0) * 60000000 < (max_ordinal + 1) * us_per_day"
    using assms(2,3) by (simp add: to_us_split us_per_day_def max_ordinal_def)
  moreover have "1 \<le> ordinal now" using assms(1) by (simp add: valid_datetime_def)
  ultimately show ?thesis by (simp add: plus_Inr_iff)
qed

lemma time_mapping_ok:
  assumes "valid_datetime now" "ordinal now + 7 \<le> max_ordinal"
  shows "\<exists>m. time_mapping now = Inr m"
proof -
  obtain a where a: "dt_plus now 0 (Suc 0) 0 = Inr a"
    using plus_hours_ok [OF assms, of 1] by auto
  obtain b where b: "dt_plus now 0 2 0 = Inr b"
    using plus_hours_ok [OF assms, of 2] by auto
  have c: "dt_plus now (Suc 0) 0 0 = Inr (now\<lparr>ordinal := ordinal now + 1\<rparr>)"
    using plus_days [OF assms(1), of 1] assms(2) by simp
  have d: "dt_plus now 7 0 0 = Inr (now\<lparr>ordinal := ordinal now + 7\<rparr>)"
    using assms by (intro plus_days) simp_all
  show ?thesis
    by (simp add: time_mapping_def and_then_def a b c d replace_time_def)
qed


section \<open>Properties of the response classifier\<close>

lemma warning_patterns_distinct: "distinct warning_patterns"
  by (simp add: warning_patterns_def)

lemma count_matches_card:
  "distinct ps \<Longrightarrow> length (filter P ps) = card {p \<in> set ps. P p}"
  by (simp add: distinct_length_filter Int_def conj_commute)

lemma classify_examples:
  "classify_output ''Task created successfully'' [] = ''success''"
  "classify_output ''Error: could not find repo'' [] = ''error''"
  "classify_output ''Several items are overdue and pending review'' [] = ''warning''"
  "classify_output ''Here is your schedule'' [] = ''info''"
  by code_simp+

text \<open>
  C5. The classifier is a cascade in which the first rule that applies decides: an error
  keyword in the lower-cased text gives "error"; else a record with status "invalid" gives
  "error"; else two or more distinct warning keywords in the text give "warning"; else a
  success keyword gives "success"; else a record with status "valid" gives "success";
  else "info". With no records, "Task created successfully" is "success",
  "Error: could not find repo" is "error", "Several items are overdue and pending review"
  is "warning" and "Here is your schedule" is "info".
\<close>

theorem classify_output_cascade:
  "classify_output response records =
     (if \<exists>p \<in> set error_patterns. contains p (lower response) then ''error''
      else if \<exists>tc \<in> set records. status tc = ''invalid'' then ''error''
      else if 2 \<le> card {p \<in> set warning_patterns. contains p (lower response)} then ''warning''
      else if \<exists>p \<in> set success_patterns. contains p (lower response) then ''success''
      else if \<exists>tc \<in> set records. status tc = ''valid'' then ''success''
      else ''info'')
   \<and> classify_output ''Task created successfully'' [] = ''success''
   \<and> classify_output ''Error: could not find repo'' [] = ''error''
   \<and> classify_output ''Several items are overdue and pending review'' [] = ''warning''
   \<and> classify_output ''Here is your schedule'' [] = ''info''"
proof -
  let ?w = "filter (\<lambda>p. contains p (lower response)) warning_patterns"
  have card: "card {p \<in> set warning_patterns. contains p (lower response)} = length ?w"
    using count_matches_card [OF warning_patterns_distinct] by simp
  have any: "list_ex (\<lambda>p. contains p (lower response)) warning_patterns" if "2 \<le> length ?w"
  proof -
    from that have "?w \<noteq> []" by auto
    then show ?thesis by (simp add: list_ex_iff filter_empty_conv)
  qed
  have records: "\<And>P. (records \<noteq> [] \<and> filter P records \<noteq> []) \<longleftrightarrow> (\<exists>tc \<in> set records. P tc)"
    by (auto simp: filter_empty_conv)
  have "classify_output response records =
     (if \<exists>p \<in> set error_patterns. contains p (lower response) then ''error''
      else if \<exists>tc \<in> set records. status tc = ''invalid'' then ''error''
      else if 2 \<le> card {p \<in> set warning_patterns. contains p (lower response)} then ''warning''
      else if \<exists>p \<in> set success_patterns. contains p (lower response) then ''success''
      else if \<exists>tc \<in> set records. status tc = ''valid'' then ''success''
      else ''info'')"
    unfolding classify_output_def Let_def card records list_ex_iff [symmetric]
    using any by (auto simp: list_ex_iff)
  then show ?thesis using classify_examples by blast
qed

theorem classify_output_cascade_witness:
  "classify_output ''All done'' [\<lparr>tool = ''create_task'', tool_args = [], status = ''invalid'',
      error = Some (Msg ''Task title is required'')\<rparr>] = ''error''"
proof -
  have "\<not> (\<exists>p \<in> set error_patterns. contains p (lower ''All done''))"
    by code_simp
  then show ?thesis
    using classify_output_cascade [of "''All done''"
      "[\<lparr>tool = ''create_task'', tool_args = [], status = ''invalid'',
         error = Some (Msg ''Task title is required'')\<rparr>]"]
    by simp
qed

section \<open>Properties of the effort aggregator\<close>

lemma effort_tier_levels:
  "fst (effort_tier (Finite t)) =
     (if t < 4 then ''low'' else if t < 8 then ''medium''
      else if t < 12 then ''high'' else ''overloaded'')"
  by (simp add: effort_tier_def)

lemma snapshot_of_total:
  "effort_level (calculate_schedule_effort (Inr tasks_result) (Inr calendar_result) gh include_github) =
     fst (effort_tier (unrounded_total tasks_result calendar_result gh include_github))"
  "total_hours (calculate_schedule_effort (Inr tasks_result) (Inr calendar_result) gh include_github) =
     round1 (unrounded_total tasks_result calendar_result gh include_github)"
  "utilization_percent
     (calculate_schedule_effort (Inr tasks_result) (Inr calendar_result) gh include_github) =
     round1 (utilization_of (unrounded_total tasks_result calendar_result gh include_github))"
  by (simp_all add: calculate_schedule_effort_def unrounded_total_def Let_def split: prod.splits)

lemma total_examples:
  "unrounded_total ''Est: 3.99h'' [] No_token True = binary64 (399 / 100)"
  "unrounded_total ''Est: 4.0h'' [] No_token True = Finite 4"
  "unrounded_total ''Est: 7.99h'' [] No_token True = binary64 (799 / 100)"
  "unrounded_total ''Est: 8.0h'' [] No_token True = Finite 8"
  "unrounded_total ''Est: 11.99h'' [] No_token True = binary64 (1199 / 100)"
  "unrounded_total ''Est: 12.0h'' [] No_token True = Finite 12"
  "unrounded_total ''Est: 16h'' [] No_token True = Finite 16"
  by code_simp+

lemma tier_examples:
  "fst (effort_tier (binary64 (399 / 100))) = ''low''"
  "fst (effort_tier (Finite 4)) = ''medium''"
  "fst (effort_tier (binary64 (799 / 100))) = ''medium''"
  "fst (effort_tier (Finite 8)) = ''high''"
  "fst (effort_tier (binary64 (1199 / 100))) = ''high''"
  "fst (effort_tier (Finite 12)) = ''overloaded''"
  by code_simp+

lemma rounding_examples:
  "round1 (binary64 (399 / 100)) = Finite 4"
  "round1 (utilization_of (binary64 (399 / 100))) = binary64 (499 / 10)"
  "utilization_of (Finite 4) = Finite 50"
  "binary64 (499 / 10) \<noteq> Finite 50"
  "round1 (utilization_of (Finite 16)) = Finite 200"
  by code_simp+

text \<open>
  The sum of three estimates, 1.2, 1.4 and 1.4 hours, is the float just below 4: the tier
  is "low", and the total the snapshot reports is 4.0.
\<close>

lemma float_sum_example:
  "unrounded_total (''Est: 1.2h'' @ [CHR 0x0A] @ ''Est: 1.4h'' @ [CHR 0x0A] @ ''Est: 1.4h'') []
     No_token True = Finite (9007199254740991 / 2251799813685248)"
  "fst (effort_tier (Finite (9007199254740991 / 2251799813685248))) = ''low''"
  "round1 (Finite (9007199254740991 / 2251799813685248)) = Finite 4"
  by code_simp+

text \<open>
  C6, as stated, fails on the snapshot: for a task list with one estimate of 3.99 hours the
  snapshot reports a total of 4.0 hours with the tier "low", not "medium", and a
  utilization of 49.9, not the 50.0 that its total of 4.0 divided by 8.0 times 100 is.
\<close>

theorem rounded_snapshot_counterexample:
  "total_hours (calculate_schedule_effort (Inr ''Est: 3.99h'') (Inr []) No_token True) = Finite 4
   \<and> effort_level (calculate_schedule_effort (Inr ''Est: 3.99h'') (Inr []) No_token True) = ''low''
   \<and> utilization_percent (calculate_schedule_effort (Inr ''Est: 3.99h'') (Inr []) No_token True)
       = binary64 (499 / 10)
   \<and> utilization_of (Finite 4) = Finite 50
   \<and> binary64 (499 / 10) \<noteq> Finite 50"
  by (simp only: snapshot_of_total total_examples tier_examples rounding_examples simp_thms)

text \<open>
  C6, amended. The tier is decided on the unrounded total, the float sum of the three
  contributions, with the upper bound of each tier left out: below 4 "low", below 8
  "medium", below 12 "high", else "overloaded"; so an unrounded total of 3.99 is "low",
  4.0 and 7.99 "medium", 8.0 and 11.99 "high" and 12.0 "overloaded". The utilization is
  the unrounded total divided by 8.0 times 100, with no cap at 100: 16 hours give 200.
  The snapshot reports the total and the utilization each rounded to one decimal.
\<close>

theorem tier_boundaries:
  "effort_level (calculate_schedule_effort (Inr tasks_result) (Inr calendar_result) gh include_github) =
     fst (effort_tier (unrounded_total tasks_result calendar_result gh include_github))
   \<and> total_hours (calculate_schedule_effort (Inr tasks_result) (Inr calendar_result) gh include_github) =
     round1 (unrounded_total tasks_result calendar_result gh include_github)
   \<and> utilization_percent
       (calculate_schedule_effort (Inr tasks_result) (Inr calendar_result) gh include_github) =
     round1 (fmul_pos (fdiv_pos (unrounded_total tasks_result calendar_result gh include_github) 8) 100)
   \<and> fst (effort_tier (Finite t)) =
       (if t < 4 then ''low'' else if t < 8 then ''medium''
        else if t < 12 then ''high'' else ''overloaded'')
   \<and> unrounded_total ''Est: 3.99h'' [] No_token True = binary64 (399 / 100)
   \<and> effort_level (calculate_schedule_effort (Inr ''Est: 3.99h'') (Inr []) No_token True) = ''low''
   \<and> unrounded_total ''Est: 4.0h'' [] No_token True = Finite 4
   \<and> effort_level (calculate_schedule_effort (Inr ''Est: 4.0h'') (Inr []) No_token True) = ''medium''
   \<and> unrounded_total ''Est: 7.99h'' [] No_token True = binary64 (799 / 100)
   \<and> effort_level (calculate_schedule_effort (Inr ''Est: 7.99h'') (Inr []) No_token True) = ''medium''
   \<and> unrounded_total ''Est: 8.0h'' [] No_token True = Finite 8
   \<and> effort_level (calculate_schedule_effort (Inr ''Est: 8.0h'') (Inr []) No_token True) = ''high''
   \<and> unrounded_total ''Est: 11.99h'' [] No_token True = binary64 (1199 / 100)
   \<and> effort_level (calculate_schedule_effort (Inr ''Est: 11.99h'') (Inr []) No_token True) = ''high''
   \<and> unrounded_total ''Est: 12.0h'' [] No_token True = Finite 12
   \<and> effort_level (calculate_schedule_effort (Inr ''Est: 12.0h'') (Inr []) No_token True)
       = ''overloaded''
   \<and> utilization_percent (calculate_schedule_effort (Inr ''Est: 16h'') (Inr []) No_token True)
       = Finite 200"
proof -
  have util: "utilization_of x = fmul_pos (fdiv_pos x 8) 100" for x
    by (simp add: utilization_of_def standard_day_def)
  have general:
    "utilization_percent
       (calculate_schedule_effort (Inr tasks_result) (Inr calendar_result) gh include_github) =
     round1 (fmul_pos (fdiv_pos (unrounded_total tasks_result calendar_result gh include_github) 8) 100)"
    by (simp only: snapshot_of_total util)
  have examples:
    "effort_level (calculate_schedule_effort (Inr ''Est: 3.99h'') (Inr []) No_token True) = ''low''"
    "effort_level (calculate_schedule_effort (Inr ''Est: 4.0h'') (Inr []) No_token True) = ''medium''"
    "effort_level (calculate_schedule_effort (Inr ''Est: 7.99h'') (Inr []) No_token True) = ''medium''"
    "effort_level (calculate_schedule_effort (Inr ''Est: 8.0h'') (Inr []) No_token True) = ''high''"
    "effort_level (calculate_schedule_effort (Inr ''Est: 11.99h'') (Inr []) No_token True) = ''high''"
    "effort_level (calculate_schedule_effort (Inr ''Est: 12.0h'') (Inr []) No_token True)
       = ''overloaded''"
    "utilization_percent (calculate_schedule_effort (Inr ''Est: 16h'') (Inr []) No_token True)
       = Finite 200"
    by (simp_all only: snapshot_of_total total_examples tier_examples rounding_examples)
  show ?thesis
    using snapshot_of_total(1,2) [of tasks_result calendar_result gh include_github]
      general effort_tier_levels [of t] total_examples examples
    by blast
qed











section \<open>Properties of the natural-time resolver\<close>

lemma parse_key:
  assumes "time_mapping now = Inr m" "strip (lower s) \<in> set time_keys"
  shows "\<exists>r. parse_natural_time now s = Inr r"
proof -
  from assms have "strip (lower s) \<in> fst ` set m"
    using time_mapping_keys [OF assms(1)] by (metis set_map)
  then obtain d where "map_of m (strip (lower s)) = Some d"
    by (metis domIff dom_map_of_conv_image_fst not_Some_eq)
  then show ?thesis
    by (simp add: parse_natural_time_def Let_def assms(1) and_then_def)
qed

lemma parse_not_key:
  assumes "time_mapping now = Inr m" "strip (lower s) \<notin> set time_keys"
  shows "parse_natural_time now s =
    (let time_str = strip (lower s) in
     case re_search at_match time_str of
       Some (g1, g2, period) \<Rightarrow>
         (let h = convert_hour (nat_of_digits g1) period;
              m = (case g2 of None \<Rightarrow> 0 | Some mm \<Rightarrow> nat_of_digits mm)
          in and_then (replace_time now h m) (\<lambda>target_time.
             and_then (if dt_less target_time now then dt_plus target_time 1 0 0
                       else Inr target_time) (\<lambda>target_time.
             Inr (isoformat target_time))))
     | None \<Rightarrow>
         (case re_search in_match time_str of
            Some (g1, unit) \<Rightarrow>
              (let amount = nat_of_digits g1 in
               and_then (if unit = ''hour'' then dt_plus now 0 amount 0
                         else dt_plus now 0 0 amount) (\<lambda>target_time.
               Inr (isoformat target_time)))
          | None \<Rightarrow> Inr time_str))"
proof -
  from assms have "strip (lower s) \<notin> fst ` set m"
    using time_mapping_keys [OF assms(1)] by (metis set_map)
  then have "map_of m (strip (lower s)) = None"
    by (simp add: map_of_eq_None_iff)
  then show ?thesis
    by (simp add: parse_natural_time_def Let_def assms(1) and_then_def)
qed

lemma at_time:
  assumes "valid_datetime now" "ordinal now + 1 \<le> max_ordinal" "h \<le> 23" "m \<le> 59"
  shows "and_then (replace_time now h m) (\<lambda>target_time.
           and_then (if dt_less target_time now then dt_plus target_time 1 0 0
                     else Inr target_time) (\<lambda>target_time.
           Inr (isoformat target_time))) = Inr (isoformat (at_target now h m))"
proof -
  let ?target = "now\<lparr>hour := h, minute := m, second := 0, microsecond := 0\<rparr>"
  have r: "replace_time now h m = Inr ?target"
    using assms(3,4) by (simp add: replace_time_def)
  have v: "valid_datetime ?target"
    using assms by (simp add: valid_datetime_def)
  have "dt_plus ?target 1 0 0 = Inr (?target\<lparr>ordinal := ordinal ?target + 1\<rparr>)"
    using v assms(2) by (intro plus_days) simp_all
  then show ?thesis
    by (simp add: r and_then_def at_target_def Let_def)
qed

lemma at_time_fails:
  assumes "\<not> (h \<le> 23 \<and> m \<le> 59)"
  shows "and_then (replace_time now h m) f = Inl ValueError"
  using assms by (auto simp: replace_time_def and_then_def)

lemma keys_have_no_at_match: "list_all (\<lambda>k. re_search at_match k = None) time_keys"
  by code_simp


lemma in_time:
  assumes "1 \<le> ordinal now"
  shows "(\<exists>r. and_then (if unit = ''hour'' then dt_plus now 0 amount 0 else dt_plus now 0 0 amount)
            (\<lambda>target_time. Inr (isoformat target_time)) = Inr r) \<longleftrightarrow>
         to_us now + amount * (if unit = ''hour'' then 3600000000 else 60000000)
           < (max_ordinal + 1) * us_per_day"
proof -
  have "(\<exists>r. and_then x (\<lambda>t. Inr (isoformat t)) = Inr r) \<longleftrightarrow> (\<exists>d. x = Inr d)"
    for x :: "error + datetime"
    by (cases x) (simp_all add: and_then_def)
  then show ?thesis
    using plus_Inr_iff [OF assms, of 0 amount 0] plus_Inr_iff [OF assms, of 0 0 amount]
    by (simp add: mult.commute)
qed

lemma resolver_returns_iff:
  assumes "valid_datetime now" "ordinal now + 7 \<le> max_ordinal"
  shows "(\<exists>r. parse_natural_time now s = Inr r) \<longleftrightarrow> resolves now (strip (lower s))"
proof -
  obtain m where m: "time_mapping now = Inr m"
    using time_mapping_ok [OF assms] by auto
  have one: "1 \<le> ordinal now" "ordinal now + 1 \<le> max_ordinal"
    using assms by (simp_all add: valid_datetime_def)
  show ?thesis
  proof (cases "strip (lower s) \<in> set time_keys")
    case True
    then show ?thesis using parse_key [OF m True] by (simp add: resolves_def)
  next
    case False
    note nk = parse_not_key [OF m False]
    show ?thesis
    proof (cases "re_search at_match (strip (lower s))")
      case (Some g)
      obtain g1 g2 period where g: "g = (g1, g2, period)" by (cases g)
      let ?h = "convert_hour (nat_of_digits g1) period"
      let ?m = "case g2 of None \<Rightarrow> 0 | Some mm \<Rightarrow> nat_of_digits mm"
      have cond: "(case g2 of None \<Rightarrow> True | Some mm \<Rightarrow> nat_of_digits mm \<le> 59) \<longleftrightarrow> ?m \<le> 59"
        by (cases g2) simp_all
      show ?thesis
      proof (cases "?h \<le> 23 \<and> ?m \<le> 59")
        case True
        then have "parse_natural_time now s = Inr (isoformat (at_target now ?h ?m))"
          using at_time [OF assms(1) one(2), of ?h ?m] by (simp add: nk Some g Let_def)
        then show ?thesis using True False cond by (simp add: resolves_def Some g)
      next
        case False2: False
        then have "parse_natural_time now s = Inl ValueError"
          using at_time_fails [OF False2] by (simp add: nk Some g Let_def)
        then show ?thesis using False2 False cond by (simp add: resolves_def Some g)
      qed
    next
      case None
      show ?thesis
      proof (cases "re_search in_match (strip (lower s))")
        case None2: None
        then show ?thesis using False None by (simp add: nk resolves_def Let_def)
      next
        case (Some g)
        obtain g1 unit where g: "g = (g1, unit)" by (cases g)
        show ?thesis
          using in_time [OF one(1), of unit "nat_of_digits g1"] False None
          by (simp add: nk resolves_def Let_def Some g)
      qed
    qed
  qed
qed

lemma resolver_fallback:
  assumes "valid_datetime now" "ordinal now + 7 \<le> max_ordinal"
    "strip (lower s) \<notin> set time_keys"
    "re_search at_match (strip (lower s)) = None" "re_search in_match (strip (lower s)) = None"
  shows "parse_natural_time now s = Inr (strip (lower s))"
proof -
  obtain m where m: "time_mapping now = Inr m"
    using time_mapping_ok [OF assms(1,2)] by auto
  show ?thesis
    using assms(4,5) by (simp add: parse_not_key [OF m assms(3)] Let_def)
qed

lemma resolver_at:
  assumes "valid_datetime now" "ordinal now + 7 \<le> max_ordinal"
    "re_search at_match (strip (lower s)) = Some (g1, g2, period)"
    "convert_hour (nat_of_digits g1) period \<le> 23"
    "(case g2 of None \<Rightarrow> 0 | Some mm \<Rightarrow> nat_of_digits mm) \<le> 59"
  shows "parse_natural_time now s =
    Inr (isoformat (at_target now (convert_hour (nat_of_digits g1) period)
      (case g2 of None \<Rightarrow> 0 | Some mm \<Rightarrow> nat_of_digits mm)))"
proof -
  obtain m where m: "time_mapping now = Inr m"
    using time_mapping_ok [OF assms(1,2)] by auto
  have "strip (lower s) \<notin> set time_keys"
    using keys_have_no_at_match assms(3) by (auto simp: list_all_iff)
  note nk = parse_not_key [OF m this]
  have "ordinal now + 1 \<le> max_ordinal" using assms(2) by simp
  from at_time [OF assms(1) this assms(4,5)] show ?thesis
    by (simp add: nk assms(3) Let_def)
qed

lemma resolver_at_raises:
  assumes "valid_datetime now" "ordinal now + 7 \<le> max_ordinal"
    "re_search at_match (strip (lower s)) = Some (g1, g2, period)"
    "\<not> (convert_hour (nat_of_digits g1) period \<le> 23
        \<and> (case g2 of None \<Rightarrow> 0 | Some mm \<Rightarrow> nat_of_digits mm) \<le> 59)"
  shows "parse_natural_time now s = Inl ValueError"
proof -
  obtain m where m: "time_mapping now = Inr m"
    using time_mapping_ok [OF assms(1,2)] by auto
  have "strip (lower s) \<notin> set time_keys"
    using keys_have_no_at_match assms(3) by (auto simp: list_all_iff)
  note nk = parse_not_key [OF m this]
  from at_time_fails [OF assms(4)] show ?thesis
    by (simp add: nk assms(3) Let_def)
qed

lemma norm_examples:
  "strip (lower ''at 3pm'') = ''at 3pm''"
  "strip (lower ''at 99'') = ''at 99''"
  "strip (lower ''at 25'') = ''at 25''"
  "strip (lower ''Someday'') = ''someday''"
  "strip (lower ''At 3:30 PM'') = ''at 3:30 pm''"
  by code_simp+

lemma match_examples:
  "re_search at_match ''at 3pm'' = Some (''3'', None, Some ''pm'')"
  "re_search at_match ''at 99'' = Some (''99'', None, None)"
  "re_search at_match ''at 25'' = Some (''25'', None, None)"
  "re_search at_match ''at 3:30 pm'' = Some (''3'', Some ''30'', Some ''pm'')"
  "re_search at_match ''someday'' = None"
  "re_search in_match ''someday'' = None"
  by code_simp+

lemma digits_examples:
  "nat_of_digits ''3'' = 3" "nat_of_digits ''99'' = 99" "nat_of_digits ''25'' = 25"
  "nat_of_digits ''30'' = 30"
  by (simp_all add: nat_of_digits_def digit_val_def)

lemma someday_not_key: "''someday'' \<notin> set time_keys"
  by (simp add: time_keys_def)

lemma iso_examples:
  "isoformat (at_target \<lparr>ordinal = 739924, hour = 9, minute = 0, second = 0, microsecond = 0\<rparr> 15 0)
     = ''2026-11-04T15:00:00''"
  "isoformat (at_target \<lparr>ordinal = 739924, hour = 16, minute = 0, second = 0, microsecond = 0\<rparr> 15 0)
     = ''2026-11-05T15:00:00''"
  by (simp_all add: isoformat_def at_target_def dt_less_def dt_key_def ord2ymd_def Let_def
      days_before_month_def days_in_month_def zero_pad_def show_nat.simps digit_char_def)

lemma valid_examples:
  "valid_datetime \<lparr>ordinal = 739924, hour = 9, minute = 0, second = 0, microsecond = 0\<rparr>"
  "valid_datetime \<lparr>ordinal = 739924, hour = 16, minute = 0, second = 0, microsecond = 0\<rparr>"
  "ordinal \<lparr>ordinal = 739924, hour = 9, minute = 0, second = 0, microsecond = 0\<rparr> + 7 \<le> max_ordinal"
  "ordinal \<lparr>ordinal = 739924, hour = 16, minute = 0, second = 0, microsecond = 0\<rparr> + 7 \<le> max_ordinal"
  by (simp_all add: valid_datetime_def max_ordinal_def)

lemma convert_examples:
  "convert_hour 3 (Some ''pm'') = 15" "convert_hour 99 None = 99" "convert_hour 25 None = 25"
  "convert_hour 13 (Some ''pm'') = 13"
  by (simp_all add: convert_hour_def)

lemma at_3pm_examples:
  "parse_natural_time \<lparr>ordinal = 739924, hour = 9, minute = 0, second = 0, microsecond = 0\<rparr>
     ''at 3pm'' = Inr ''2026-11-04T15:00:00''"
  "parse_natural_time \<lparr>ordinal = 739924, hour = 16, minute = 0, second = 0, microsecond = 0\<rparr>
     ''at 3pm'' = Inr ''2026-11-05T15:00:00''"
proof -
  have m: "re_search at_match (strip (lower ''at 3pm'')) = Some (''3'', None, Some ''pm'')"
    by (simp only: norm_examples match_examples)
  have h: "convert_hour (nat_of_digits ''3'') (Some ''pm'') = 15"
    by (simp only: digits_examples convert_examples)
  show "parse_natural_time \<lparr>ordinal = 739924, hour = 9, minute = 0, second = 0, microsecond = 0\<rparr>
     ''at 3pm'' = Inr ''2026-11-04T15:00:00''"
    using resolver_at [OF valid_examples(1) valid_examples(3) m]
    by (simp add: h iso_examples)
  show "parse_natural_time \<lparr>ordinal = 739924, hour = 16, minute = 0, second = 0, microsecond = 0\<rparr>
     ''at 3pm'' = Inr ''2026-11-05T15:00:00''"
    using resolver_at [OF valid_examples(2) valid_examples(4) m]
    by (simp add: h iso_examples)
qed

text \<open>
  C4, as stated, fails: on 2026-11-04 at 09:00 the phrase "at 99" makes the resolver raise
  \<^verbatim>\<open>ValueError\<close>, and the phrase "Someday", to which no entry and no pattern applies,
  comes back as "someday", not unchanged.
\<close>

theorem resolver_total_counterexample:
  "parse_natural_time \<lparr>ordinal = 739924, hour = 9, minute = 0, second = 0, microsecond = 0\<rparr>
     ''at 99'' = Inl ValueError
   \<and> parse_natural_time \<lparr>ordinal = 739924, hour = 9, minute = 0, second = 0, microsecond = 0\<rparr>
     ''Someday'' = Inr ''someday''
   \<and> ''someday'' \<noteq> ''Someday''"
proof -
  have m: "re_search at_match (strip (lower ''at 99'')) = Some (''99'', None, None)"
    by (simp only: norm_examples match_examples)
  have "\<not> (convert_hour (nat_of_digits ''99'') None \<le> 23
      \<and> (case None :: string option of None \<Rightarrow> 0 | Some mm \<Rightarrow> nat_of_digits mm) \<le> 59)"
    by (simp add: digits_examples convert_examples)
  from resolver_at_raises [OF valid_examples(1) valid_examples(3) m this]
  have 1: "parse_natural_time \<lparr>ordinal = 739924, hour = 9, minute = 0, second = 0, microsecond = 0\<rparr>
     ''at 99'' = Inl ValueError" .
  have 2: "parse_natural_time \<lparr>ordinal = 739924, hour = 9, minute = 0, second = 0, microsecond = 0\<rparr>
     ''Someday'' = Inr ''someday''"
  proof -
    have "strip (lower ''Someday'') \<notin> set time_keys"
      "re_search at_match (strip (lower ''Someday'')) = None"
      "re_search in_match (strip (lower ''Someday'')) = None"
      by (simp_all only: norm_examples match_examples someday_not_key not_False_eq_True)
    from resolver_fallback [OF valid_examples(1) valid_examples(3) this]
    show ?thesis by (simp only: norm_examples)
  qed
  show ?thesis using 1 2 by simp
qed

text \<open>
  C4, amended. With \<open>now\<close> a valid datetime at least seven days before the end of the
  range of dates, the resolver returns a result exactly when the phrase, lower-cased and
  stripped, is a key of the table, or has a match of the "at" pattern whose hour, after the
  conversion, is at most 23 and whose minutes are at most 59, or has no such match and a
  match of the "in" pattern whose amount keeps the sum within the range of dates, or has
  no match at all; otherwise it raises. When no entry and no pattern applies, it returns
  the phrase lower-cased and stripped of the white space around it.
\<close>

theorem resolver_returns:
  assumes "valid_datetime now" "ordinal now + 7 \<le> max_ordinal"
  shows "((\<exists>r. parse_natural_time now s = Inr r) \<longleftrightarrow> resolves now (strip (lower s)))
    \<and> (strip (lower s) \<notin> set time_keys \<and> re_search at_match (strip (lower s)) = None
         \<and> re_search in_match (strip (lower s)) = None
       \<longrightarrow> parse_natural_time now s = Inr (strip (lower s)))"
  using resolver_returns_iff [OF assms] resolver_fallback [OF assms] by blast

lemma whenever_examples:
  "strip (lower ''  Whenever '') = ''whenever''"
  "re_search at_match ''whenever'' = None"
  "re_search in_match ''whenever'' = None"
  "''whenever'' \<notin> set time_keys"
  by code_simp+

theorem resolver_returns_witness:
  "valid_datetime \<lparr>ordinal = 739924, hour = 9, minute = 0, second = 0, microsecond = 0\<rparr>
   \<and> parse_natural_time \<lparr>ordinal = 739924, hour = 9, minute = 0, second = 0, microsecond = 0\<rparr>
        ''  Whenever '' = Inr ''whenever''"
proof -
  have "strip (lower ''  Whenever '') \<notin> set time_keys
      \<and> re_search at_match (strip (lower ''  Whenever '')) = None
      \<and> re_search in_match (strip (lower ''  Whenever '')) = None"
    by (simp only: whenever_examples simp_thms)
  with resolver_returns [OF valid_examples(1) valid_examples(3), of "''  Whenever ''"]
  have "parse_natural_time \<lparr>ordinal = 739924, hour = 9, minute = 0, second = 0, microsecond = 0\<rparr>
        ''  Whenever '' = Inr (strip (lower ''  Whenever ''))"
    by blast
  then show ?thesis by (simp only: whenever_examples valid_examples simp_thms)
qed

text \<open>
  C7, as stated, fails: "at 25" matches the pattern and the resolver raises
  \<^verbatim>\<open>ValueError\<close> instead of returning a time.
\<close>

theorem at_pattern_counterexample:
  "re_search at_match (strip (lower ''at 25'')) = Some (''25'', None, None)
   \<and> parse_natural_time \<lparr>ordinal = 739924, hour = 9, minute = 0, second = 0, microsecond = 0\<rparr>
        ''at 25'' = Inl ValueError"
proof -
  have m: "re_search at_match (strip (lower ''at 25'')) = Some (''25'', None, None)"
    by (simp only: norm_examples match_examples)
  have "\<not> (convert_hour (nat_of_digits ''25'') None \<le> 23
      \<and> (case None :: string option of None \<Rightarrow> 0 | Some mm \<Rightarrow> nat_of_digits mm) \<le> 59)"
    by (simp add: digits_examples convert_examples)
  from resolver_at_raises [OF valid_examples(1) valid_examples(3) m this] m
  show ?thesis by simp
qed

text \<open>
  C7, amended. With \<open>now\<close> a valid datetime at least seven days before the end of the
  range of dates, and a phrase whose leftmost match of the "at" pattern has an hour that is
  at most 23 after the conversion and minutes that are at most 59, the resolver returns
  that time of day today, or tomorrow when it is before \<open>now\<close>. The conversion adds
  12 to an hour below 12 written with "pm", turns 12 written with "am" into 0 and leaves
  every other hour as it is. "at 3pm" is 15:00 of the same day at 09:00 and 15:00 of the
  next day at 16:00.
\<close>

theorem at_pattern_resolves:
  assumes "valid_datetime now" "ordinal now + 7 \<le> max_ordinal"
    and "re_search at_match (strip (lower s)) = Some (g1, g2, period)"
    and "h = convert_hour (nat_of_digits g1) period"
    and "m = (case g2 of None \<Rightarrow> 0 | Some mm \<Rightarrow> nat_of_digits mm)"
    and "h \<le> 23" "m \<le> 59"
  shows "parse_natural_time now s =
      Inr (isoformat
        (let target = now\<lparr>hour := h, minute := m, second := 0, microsecond := 0\<rparr> in
         if dt_less target now then target\<lparr>ordinal := ordinal now + 1\<rparr> else target))
    \<and> convert_hour k (Some ''pm'') = (if k < 12 then k + 12 else k)
    \<and> convert_hour 12 (Some ''am'') = 0
    \<and> (k \<noteq> 12 \<longrightarrow> convert_hour k (Some ''am'') = k)
    \<and> convert_hour k None = k
    \<and> parse_natural_time \<lparr>ordinal = 739924, hour = 9, minute = 0, second = 0, microsecond = 0\<rparr>
         ''at 3pm'' = Inr ''2026-11-04T15:00:00''
    \<and> parse_natural_time \<lparr>ordinal = 739924, hour = 16, minute = 0, second = 0, microsecond = 0\<rparr>
         ''at 3pm'' = Inr ''2026-11-05T15:00:00''"
proof -
  have "parse_natural_time now s = Inr (isoformat (at_target now h m))"
    using resolver_at [OF assms(1,2,3)] assms(4-7) by simp
  then show ?thesis
    using at_3pm_examples by (simp add: at_target_def convert_hour_def)
qed

lemma at_330_examples:
  "convert_hour (nat_of_digits ''3'') (Some ''pm'') = 15"
  "isoformat (\<lparr>ordinal = 739924, hour = 15, minute = 30, second = 0, microsecond = 0\<rparr>)
     = ''2026-11-04T15:30:00''"
  "\<not> dt_less \<lparr>ordinal = 739924, hour = 15, minute = 30, second = 0, microsecond = 0\<rparr>
      \<lparr>ordinal = 739924, hour = 9, minute = 0, second = 0, microsecond = 0\<rparr>"
  by (simp_all add: digits_examples convert_examples isoformat_def dt_less_def dt_key_def
      ord2ymd_def Let_def days_before_month_def days_in_month_def zero_pad_def show_nat.simps
      digit_char_def)

theorem at_pattern_resolves_witness:
  "re_search at_match (strip (lower ''At 3:30 PM'')) = Some (''3'', Some ''30'', Some ''pm'')
   \<and> parse_natural_time \<lparr>ordinal = 739924, hour = 9, minute = 0, second = 0, microsecond = 0\<rparr>
        ''At 3:30 PM'' = Inr ''2026-11-04T15:30:00''"
proof -
  have m: "re_search at_match (strip (lower ''At 3:30 PM'')) = Some (''3'', Some ''30'', Some ''pm'')"
    by (simp only: norm_examples match_examples)
  have h: "15 = convert_hour (nat_of_digits ''3'') (Some ''pm'')"
    by (simp only: at_330_examples)
  have mi: "30 = (case Some ''30'' of None \<Rightarrow> 0 | Some mm \<Rightarrow> nat_of_digits mm)"
    by (simp add: digits_examples)
  from at_pattern_resolves [OF valid_examples(1) valid_examples(3) m h mi] m
  show ?thesis by (simp add: at_330_examples)
qed


section \<open>Properties of the tool validator\<close>

lemma map_of_dict_set: "map_of (dict_set d k v) k' = (if k' = k then Some v else map_of d k')"
  by (induction d k v rule: dict_set.induct) auto

lemma dict_get_dict_set: "dict_get (dict_set d k v) k' dflt = (if k' = k then v else dict_get d k' dflt)"
  by (simp add: dict_get_def map_of_dict_set)

lemma validate_event_call:
  "validate_tool_call now ''create_calendar_event'' a =
     (case validate_event now a of
        Inl e \<Rightarrow> Inl e
      | Inr (Some r, a') \<Rightarrow> Inr (False, r, a')
      | Inr (None, a') \<Rightarrow> Inr (True, Msg [], a'))"
  by (simp add: validate_tool_call_def split: sum.splits option.splits prod.splits)

lemma validate_event_default:
  assumes "map_of a ''duration_hours'' = None"
  shows "validate_event now a =
     (if \<not> truthy (dict_get a ''summary'' PNone) then
        Inr (Some (Msg ''Event title is required''), a)
      else
        (case resolve_value now (dict_get a ''start_time'' (PStr [])) of
           Inl e \<Rightarrow> Inr (Some (Could_not_parse_time (dict_get a ''start_time'' (PStr [])) e), a)
         | Inr t \<Rightarrow>
             Inr (None, dict_set (dict_set a ''start_time'' (PStr t)) ''duration_hours''
                    (PFloat (Finite 1)))))"
  using assms
  by (simp add: validate_event_def Let_def dict_get_def map_of_dict_set binary64_ints
      split: sum.splits)

text \<open>
  C3, as stated, fails: a "create event" action with a title and no duration entry is
  valid, and the validator writes the duration 1.0 into the arguments.
\<close>

theorem missing_duration_counterexample:
  "map_of [(''summary'', PStr ''Standup'')] ''duration_hours'' = None
   \<and> validate_tool_call \<lparr>ordinal = 739924, hour = 9, minute = 0, second = 0, microsecond = 0\<rparr>
        ''create_calendar_event'' [(''summary'', PStr ''Standup'')] =
       Inr (True, Msg [],
         [(''summary'', PStr ''Standup''), (''start_time'', PStr []),
          (''duration_hours'', PFloat (Finite 1))])"
proof -
  have e: "strip (lower []) \<notin> set time_keys" "re_search at_match (strip (lower [])) = None"
     "re_search in_match (strip (lower [])) = None" "strip (lower []) = []"
    by code_simp+
  have "parse_natural_time \<lparr>ordinal = 739924, hour = 9, minute = 0, second = 0, microsecond = 0\<rparr> []
      = Inr []"
    using resolver_fallback [OF valid_examples(1) valid_examples(3) e(1,2,3)] by (simp only: e)
  then show ?thesis
    by (simp add: validate_event_call validate_event_default dict_get_def resolve_value_def)
qed

text \<open>
  C3, amended. For a "create event" action whose arguments hold no duration entry the
  validator takes the duration to be 1 hour: the action is valid exactly when its title
  is not empty and its start time resolves, and the arguments of a valid action then hold
  the duration 1.0.
\<close>

theorem missing_duration_default:
  assumes "map_of a ''duration_hours'' = None"
  shows "((\<exists>r a'. validate_tool_call now ''create_calendar_event'' a = Inr (True, r, a')) \<longleftrightarrow>
       truthy (dict_get a ''summary'' PNone)
       \<and> (\<exists>t. resolve_value now (dict_get a ''start_time'' (PStr [])) = Inr t))
    \<and> (\<forall>r a'. validate_tool_call now ''create_calendar_event'' a = Inr (True, r, a') \<longrightarrow>
          map_of a' ''duration_hours'' = Some (PFloat (Finite 1)))"
  by (auto simp: validate_event_call validate_event_default [OF assms] map_of_dict_set
      split: sum.splits)


lemma int_in_range_small:
  assumes "1 / 4 \<le> (of_int n :: rat)" "(of_int n :: rat) \<le> 12"
  shows "\<not> 2 ^ 1024 - 2 ^ 970 \<le> \<bar>n\<bar>"
proof -
  from assms(1) have "(0 :: rat) < of_int n" by linarith
  then have "0 < n" by simp
  moreover from assms(2) have "n \<le> 12" by linarith
  ultimately have "\<bar>n\<bar> \<le> 12" by simp
  moreover have "(12 :: int) < 2 ^ 1024 - 2 ^ 970" by simp
  ultimately show ?thesis by linarith
qed

lemma py_float_int_in_range:
  assumes "1 / 4 \<le> (of_int n :: rat)" "(of_int n :: rat) \<le> 12"
  shows "py_float (PInt n) = Inr (Finite (of_int n))"
proof -
  from assms(1) have "(0 :: rat) < of_int n" by linarith
  then have "1 \<le> n" by simp
  moreover from assms(2) have "n \<le> 12" by linarith
  ultimately have "binary64 (of_int n) = Finite (of_int n)" by (rule binary64_small_int)
  then show ?thesis using int_in_range_small [OF assms] by simp
qed

lemma validate_event_duration:
  assumes "truthy (dict_get a ''summary'' PNone)"
    and "resolve_value now (dict_get a ''start_time'' (PStr [])) = Inr t"
    and "map_of a ''duration_hours'' = Some v"
    and "py_float v = Inr (Finite d)"
  shows "validate_event now a =
     (if d < 1 / 4 \<or> 12 < d then
        Inr (Some (Msg ''Duration must be between 15 minutes and 12 hours''),
          dict_set (dict_set a ''start_time'' (PStr t)) ''duration_hours'' (PFloat (Finite d)))
      else
        Inr (None,
          dict_set (dict_set a ''start_time'' (PStr t)) ''duration_hours'' (PFloat (Finite d))))"
  using assms
  by (simp add: validate_event_def Let_def dict_get_def map_of_dict_set)

text \<open>
  C8. For a "create event" action with a title that is not empty, a start time that
  resolves and a duration entry that is a number \<open>d\<close> (a float, or an integer), the
  validator returns ok=true when \<open>0.25 \<le> d \<le> 12\<close>, with the start time and the
  duration rewritten in the arguments; for a float below 0.25 or above 12, and so for 0.2
  and for 12.5, it returns ok=false.
\<close>

theorem duration_range:
  assumes "truthy (dict_get a ''summary'' PNone)"
    and "resolve_value now (dict_get a ''start_time'' (PStr [])) = Inr t"
    and "map_of a ''duration_hours'' = Some v"
  shows "((v = PFloat (Finite d) \<or> v = PInt n \<and> d = of_int n) \<and> 1 / 4 \<le> d \<and> d \<le> 12 \<longrightarrow>
        validate_tool_call now ''create_calendar_event'' a =
          Inr (True, Msg [],
            dict_set (dict_set a ''start_time'' (PStr t)) ''duration_hours'' (PFloat (Finite d))))
    \<and> (v = PFloat (Finite d) \<and> (d < 1 / 4 \<or> 12 < d) \<longrightarrow>
        validate_tool_call now ''create_calendar_event'' a =
          Inr (False, Msg ''Duration must be between 15 minutes and 12 hours'',
            dict_set (dict_set a ''start_time'' (PStr t)) ''duration_hours'' (PFloat (Finite d))))
    \<and> (v = PFloat (Finite (1 / 5)) \<or> v = PFloat (Finite (25 / 2)) \<longrightarrow>
        (\<exists>r a'. validate_tool_call now ''create_calendar_event'' a = Inr (False, r, a')))"
proof -
  have float: "py_float v = Inr (Finite d)"
    if "v = PFloat (Finite d) \<or> v = PInt n \<and> d = of_int n" "1 / 4 \<le> d" "d \<le> 12"
    using that py_float_int_in_range [of n] by auto
  have 1: "validate_tool_call now ''create_calendar_event'' a =
      Inr (True, Msg [],
        dict_set (dict_set a ''start_time'' (PStr t)) ''duration_hours'' (PFloat (Finite d)))"
    if "v = PFloat (Finite d) \<or> v = PInt n \<and> d = of_int n" "1 / 4 \<le> d" "d \<le> 12"
    using that(2,3) validate_event_duration [OF assms float [OF that]]
    by (simp add: validate_event_call)
  have 2: "validate_tool_call now ''create_calendar_event'' a =
      Inr (False, Msg ''Duration must be between 15 minutes and 12 hours'',
        dict_set (dict_set a ''start_time'' (PStr t)) ''duration_hours'' (PFloat (Finite d')))"
    if "v = PFloat (Finite d')" "d' < 1 / 4 \<or> 12 < d'" for d'
    using that validate_event_duration [OF assms, of d']
    by (auto simp: validate_event_call)
  have 3: "\<exists>r a'. validate_tool_call now ''create_calendar_event'' a = Inr (False, r, a')"
    if "v = PFloat (Finite (1 / 5)) \<or> v = PFloat (Finite (25 / 2))"
    using that 2 [of "1 / 5"] 2 [of "25 / 2"] by auto
  show ?thesis using 1 2 [of d] 3 by blast
qed

lemma resolve_at_3pm:
  "resolve_value \<lparr>ordinal = 739924, hour = 9, minute = 0, second = 0, microsecond = 0\<rparr>
     (PStr ''at 3pm'') = Inr ''2026-11-04T15:00:00''"
  by (simp add: resolve_value_def at_3pm_examples)

theorem duration_range_witness:
  "validate_tool_call \<lparr>ordinal = 739924, hour = 9, minute = 0, second = 0, microsecond = 0\<rparr>
     ''create_calendar_event''
     [(''summary'', PStr ''Design review''), (''start_time'', PStr ''at 3pm''),
      (''duration_hours'', PFloat (Finite (1 / 4)))] =
   Inr (True, Msg [],
     [(''summary'', PStr ''Design review''), (''start_time'', PStr ''2026-11-04T15:00:00''),
      (''duration_hours'', PFloat (Finite (1 / 4)))])"
proof -
  let ?a = "[(''summary'', PStr ''Design review''), (''start_time'', PStr ''at 3pm''),
      (''duration_hours'', PFloat (Finite (1 / 4)))]"
  have 1: "truthy (dict_get ?a ''summary'' PNone)" by (simp add: dict_get_def)
  have 2: "resolve_value \<lparr>ordinal = 739924, hour = 9, minute = 0, second = 0, microsecond = 0\<rparr>
      (dict_get ?a ''start_time'' (PStr [])) = Inr ''2026-11-04T15:00:00''"
    using resolve_at_3pm by (simp add: dict_get_def)
  have 3: "map_of ?a ''duration_hours'' = Some (PFloat (Finite (1 / 4)))" by simp
  from duration_range [OF 1 2 3, of "1 / 4" 0] show ?thesis by simp
qed

theorem missing_duration_default_witness:
  "map_of [(''summary'', PStr ''Retro''), (''start_time'', PStr ''at 3pm'')] ''duration_hours'' = None
   \<and> (\<exists>r a'. validate_tool_call
          \<lparr>ordinal = 739924, hour = 9, minute = 0, second = 0, microsecond = 0\<rparr>
          ''create_calendar_event''
          [(''summary'', PStr ''Retro''), (''start_time'', PStr ''at 3pm'')] = Inr (True, r, a'))"
proof -
  let ?a = "[(''summary'', PStr ''Retro''), (''start_time'', PStr ''at 3pm'')]"
  have m: "map_of ?a ''duration_hours'' = None" by simp
  have "truthy (dict_get ?a ''summary'' PNone)" by (simp add: dict_get_def)
  moreover have "\<exists>t. resolve_value
      \<lparr>ordinal = 739924, hour = 9, minute = 0, second = 0, microsecond = 0\<rparr>
      (dict_get ?a ''start_time'' (PStr [])) = Inr t"
    using resolve_at_3pm by (simp add: dict_get_def)
  ultimately show ?thesis
    using missing_duration_default [OF m,
      of "\<lparr>ordinal = 739924, hour = 9, minute = 0, second = 0, microsecond = 0\<rparr>"] m
    by blast
qed


section \<open>Properties of the orchestration loop\<close>

lemma validate_batch_valid:
  "validate_batch clock i tcs = Inr (records, validated) \<Longrightarrow>
     length records = length tcs
     \<and> validated = map fst (filter (\<lambda>p. status (snd p) = ''valid'') (zip tcs records))
     \<and> (\<forall>r \<in> set records. status r = ''valid'' \<or> status r = ''invalid'')"
proof (induction tcs arbitrary: i records validated)
  case Nil
  then show ?case by simp
next
  case (Cons tc tcs)
  from Cons.prems obtain ok msg a rs vs where
    v: "validate_tool_call (clock i) (tc_name tc) (tc_args tc) = Inr (ok, msg, a)"
    and rest: "validate_batch clock (i + 1) tcs = Inr (rs, vs)"
    by (auto split: sum.splits prod.splits)
  note IH = Cons.IH [OF rest]
  show ?case
  proof (cases ok)
    case True
    with Cons.prems v rest have
      "records = \<lparr>tool = tc_name tc, tool_args = a, status = ''valid'', error = None\<rparr> # rs"
      "validated = tc # vs"
      by simp_all
    with IH show ?thesis by simp
  next
    case False
    with Cons.prems v rest have
      "records = \<lparr>tool = tc_name tc, tool_args = a, status = ''invalid'', error = Some msg\<rparr> # rs"
      "validated = vs"
      by simp_all
    with IH show ?thesis by simp
  qed
qed

lemma call_model_forwards:
  assumes "llm (SystemMessage system_prompt # messages state) = Inr response"
    and "validate_batch clock 0 (tool_calls response) = Inr (records, validated)"
  shows "call_model system_prompt llm clock state =
     Inr \<lparr>upd_messages =
            [AIMessage (if validated \<noteq> [] then response\<lparr>tool_calls := validated\<rparr> else response)],
          upd_tool_calls = state_tool_calls state @ records\<rparr>"
  using assms by (simp add: call_model_def Let_def)

lemma py_float_20: "py_float (PInt 20) = Inr (Finite 20)"
  by (simp add: binary64_ints)

lemma validate_long_event:
  "validate_tool_call \<lparr>ordinal = 739924, hour = 9, minute = 0, second = 0, microsecond = 0\<rparr>
     ''create_calendar_event''
     [(''summary'', PStr ''Offsite''), (''start_time'', PStr ''at 3pm''),
      (''duration_hours'', PInt 20)] =
   Inr (False, Msg ''Duration must be between 15 minutes and 12 hours'',
     [(''summary'', PStr ''Offsite''), (''start_time'', PStr ''2026-11-04T15:00:00''),
      (''duration_hours'', PFloat (Finite 20))])"
proof -
  let ?a = "[(''summary'', PStr ''Offsite''), (''start_time'', PStr ''at 3pm''),
      (''duration_hours'', PInt 20)]"
  have 1: "truthy (dict_get ?a ''summary'' PNone)" by (simp add: dict_get_def)
  have 2: "resolve_value \<lparr>ordinal = 739924, hour = 9, minute = 0, second = 0, microsecond = 0\<rparr>
      (dict_get ?a ''start_time'' (PStr [])) = Inr ''2026-11-04T15:00:00''"
    using resolve_at_3pm by (simp add: dict_get_def)
  have 3: "map_of ?a ''duration_hours'' = Some (PInt 20)" by simp
  from validate_event_duration [OF 1 2 3 py_float_20] show ?thesis
    by (simp add: validate_event_call)
qed

text \<open>
  C1 on a batch whose only action is invalid: a "create event" action of 20 hours. The
  action is recorded with the status "invalid", and the reply still holds it, since the
  reply keeps its tool calls when no call is valid; \<^verbatim>\<open>should_continue\<close> then sends
  the reply to the tool node.
\<close>

theorem call_model_all_invalid:
  "call_model system_prompt
     (\<lambda>full_messages. Inr \<lparr>content = [], tool_calls =
        [\<lparr>tc_name = ''create_calendar_event'',
          tc_args = [(''summary'', PStr ''Offsite''), (''start_time'', PStr ''at 3pm''),
                     (''duration_hours'', PInt 20)],
          tc_id = ''call_1''\<rparr>]\<rparr>)
     (\<lambda>i. \<lparr>ordinal = 739924, hour = 9, minute = 0, second = 0, microsecond = 0\<rparr>)
     (fresh_state\<lparr>messages := [HumanMessage ''Book the offsite at 3pm for 20 hours'']\<rparr>) =
   Inr \<lparr>upd_messages =
          [AIMessage \<lparr>content = [], tool_calls =
             [\<lparr>tc_name = ''create_calendar_event'',
               tc_args = [(''summary'', PStr ''Offsite''), (''start_time'', PStr ''at 3pm''),
                          (''duration_hours'', PInt 20)],
               tc_id = ''call_1''\<rparr>]\<rparr>],
        upd_tool_calls =
          [\<lparr>tool = ''create_calendar_event'',
            tool_args = [(''summary'', PStr ''Offsite''),
                         (''start_time'', PStr ''2026-11-04T15:00:00''),
                         (''duration_hours'', PFloat (Finite 20))],
            status = ''invalid'',
            error = Some (Msg ''Duration must be between 15 minutes and 12 hours'')\<rparr>]\<rparr>
   \<and> should_continue
        (fresh_state\<lparr>messages :=
           [HumanMessage ''Book the offsite at 3pm for 20 hours'',
            AIMessage \<lparr>content = [], tool_calls =
              [\<lparr>tc_name = ''create_calendar_event'',
                tc_args = [(''summary'', PStr ''Offsite''), (''start_time'', PStr ''at 3pm''),
                           (''duration_hours'', PInt 20)],
                tc_id = ''call_1''\<rparr>]\<rparr>]\<rparr>) = Inr ''tools''"
  by (simp add: call_model_def validate_long_event fresh_state_def should_continue_def)

lemma run_agent_failure:
  assumes "graph_invoke w (s\<lparr>messages := messages s @ [HumanMessage user_input]\<rparr>) = Inl e"
  shows "run_agent w user_input (Some s) include_analysis =
     s\<lparr>messages := messages s @ [HumanMessage user_input, SystemMessage (error_marker @ e)],
       classification := (if include_analysis then Some ''error'' else classification s)\<rparr>"
  using assms by (simp add: run_agent_def run_agent_try_def Let_def)

lemma run_agent_None: "run_agent w user_input None ia = run_agent w user_input (Some fresh_state) ia"
  by (simp add: run_agent_def)

text \<open>
  C9, as stated, fails: when the graph raises and the analysis was not asked for, the
  state that comes back has no classification.
\<close>

theorem model_failure_counterexample:
  "graph_invoke
     \<lparr>graph_invoke = (\<lambda>state. Inl ''connection refused''),
      summary_tasks = Inr [], summary_events = Inr [], summary_github = No_token,
      effort_tasks = Inr [], effort_events = Inr [], effort_github = No_token\<rparr>
     (fresh_state\<lparr>messages := [HumanMessage ''hello'']\<rparr>) = Inl ''connection refused''
   \<and> classification (run_agent
       \<lparr>graph_invoke = (\<lambda>state. Inl ''connection refused''),
        summary_tasks = Inr [], summary_events = Inr [], summary_github = No_token,
        effort_tasks = Inr [], effort_events = Inr [], effort_github = No_token\<rparr>
       ''hello'' None False) = None"
  by (simp add: run_agent_None run_agent_failure fresh_state_def)

text \<open>
  C9, amended. When the invocation of the graph raises, \<^verbatim>\<open>run_agent\<close> returns the
  state it started from with the utterance and a system message appended, whose text
  starts with the cross mark and carries the text of the exception; the classification is
  "error" when the analysis was asked for and is left as it was otherwise.
\<close>

theorem model_failure_handled:
  assumes "start = (case state0 of None \<Rightarrow> fresh_state | Some s \<Rightarrow> s)"
    and "graph_invoke w (start\<lparr>messages := messages start @ [HumanMessage user_input]\<rparr>) = Inl e"
  shows "run_agent w user_input state0 include_analysis =
      start\<lparr>messages := messages start
               @ [HumanMessage user_input, SystemMessage (error_marker @ e)],
            classification := (if include_analysis then Some ''error'' else classification start)\<rparr>
    \<and> starts_with (error_marker @ e) [CHR 0xE2, CHR 0x9D, CHR 0x8C]"
proof -
  have "run_agent w user_input state0 include_analysis =
      run_agent w user_input (Some start) include_analysis"
    using assms(1) by (cases state0) (simp_all add: run_agent_None)
  then show ?thesis
    using run_agent_failure [OF assms(2)] by (simp add: error_marker_def)
qed

theorem model_failure_handled_witness:
  "run_agent
     \<lparr>graph_invoke = (\<lambda>state. Inl ''model timed out''),
      summary_tasks = Inr [], summary_events = Inr [], summary_github = No_token,
      effort_tasks = Inr [], effort_events = Inr [], effort_github = No_token\<rparr>
     ''plan my day'' None True =
   fresh_state\<lparr>messages :=
       [HumanMessage ''plan my day'', SystemMessage (error_marker @ ''model timed out'')],
     classification := Some ''error''\<rparr>"
  using model_failure_handled [of fresh_state None
     "\<lparr>graph_invoke = (\<lambda>state. Inl ''model timed out''),
      summary_tasks = Inr [], summary_events = Inr [], summary_github = No_token,
      effort_tasks = Inr [], effort_events = Inr [], effort_github = No_token\<rparr>"
     "''plan my day''" "''model timed out''" True]
  by (simp add: fresh_state_def)

end
